theory Spec2Isabelle
  imports Main "HOL-Library.AList"
begin

section \<open>Python values that the container handles\<close>

text \<open>
  A Python class object is identified by its name and its direct bases; every class
  inherits from \<open>object\<close>. \<open>issubclass c d\<close> is Python's built-in of that name.
\<close>

datatype pytype = PyType (type_name: string) (type_bases: "pytype list")

definition object_type :: pytype where
  "object_type = PyType ''object'' []"

fun issubclass :: "pytype \<Rightarrow> pytype \<Rightarrow> bool" where
  "issubclass (PyType n bs) d =
     (PyType n bs = d \<or> d = object_type \<or> list_ex (\<lambda>b. issubclass b d) bs)"

text \<open>
  What \<open>inspect.signature\<close> reports for one parameter: its name, its kind and its
  annotation (\<open>None\<close> stands for \<open>inspect.Parameter.empty\<close>).
\<close>

datatype param_kind =
  POSITIONAL_ONLY | POSITIONAL_OR_KEYWORD | VAR_POSITIONAL | KEYWORD_ONLY | VAR_KEYWORD

record parameter =
  param_name :: string
  param_kind :: param_kind
  param_annotation :: "pytype option"

text \<open>
  The values that can be handed to \<open>generate_dependency_list\<close>: something that is not
  callable, a class, or a function or method with the parameters of its signature.
\<close>

datatype pycallable = NotCallable | ClassValue | PyFunction "parameter list"

text \<open>
  A class as the container uses it: the type object, the signature of its
  \<open>__init__\<close>, and whether calling the class raises. The constructor is user code;
  the model takes it to be atomic (it does not call back into the container) and
  \<open>cls_init_raises\<close> stands for every way the call can fail.
\<close>

record pyclass =
  cls_type :: pytype
  cls_init :: "parameter list"
  cls_init_raises :: bool

text \<open>An object: its identity, its type and the arguments it was constructed from.\<close>

datatype pyobj = PyObj (obj_id: nat) (obj_type: pyclass) (obj_args: "pyobj list")

section \<open>Exceptions\<close>

text \<open>
  \<open>doze/ex.py\<close> and \<open>doze/di/container/ex.py\<close>. Messages are left out; the cyclic
  exception keeps its \<open>cyclic_list\<close>. \<open>PyTypeError\<close> is Python's own \<open>TypeError\<close>
  (iterating over \<open>None\<close>), \<open>PyIndexError\<close> and \<open>PyAttributeError\<close> likewise,
  \<open>ConstructorError\<close> whatever a component's constructor raises.
  \<open>DanglingReference\<close> is no Python exception: factories are referred to by the name
  they are registered under, and it is the outcome of following a name that is bound
  to no factory, which the code cannot do with an object reference.
\<close>

datatype error =
    InvalidArgumentException
  | InvalidStateException
  | NameAlreadyDefinedException
  | UnknownComponentException
  | TooManyDefinitionsException
  | TypeMismatchException
  | CyclicDependencyException "string list"
  | PyTypeError
  | PyIndexError
  | PyAttributeError
  | ConstructorError
  | DanglingReference

section \<open>dependency.py\<close>

definition IGNORED_PARAMETERS_NAMES :: "string list" where
  "IGNORED_PARAMETERS_NAMES = [''self'', ''args'', ''kwargs'']"

text \<open>
  \<open>class DependencyType(Enum)\<close>: the class body binds four names to values. Python's
  \<open>Enum\<close> creates one member for each distinct value, named after the first name bound
  to it; a later name with the same value is an alias of that member.
\<close>

type_synonym enum_member = "string \<times> int"

definition DependencyType_body :: "(string \<times> int) list" where
  "DependencyType_body = [(''SIMPLE'', 1), (''LIST'', 1), (''SET'', 2), (''DICTIONARY'', 3)]"

fun enum_members :: "enum_member list \<Rightarrow> (string \<times> int) list \<Rightarrow> enum_member list" where
  "enum_members ms [] = ms"
| "enum_members ms ((n, v) # body) =
     (if v \<in> set (map snd ms) then enum_members ms body
      else enum_members (ms @ [(n, v)]) body)"

definition enum_attr :: "(string \<times> int) list \<Rightarrow> string \<Rightarrow> enum_member option" where
  "enum_attr body name =
     (case map_of body name of
        None \<Rightarrow> None
      | Some v \<Rightarrow> find (\<lambda>m. snd m = v) (enum_members [] body))"

definition DependencyType :: "string \<Rightarrow> enum_member option" where
  "DependencyType = enum_attr DependencyType_body"

definition DependencyType_SIMPLE :: enum_member where
  "DependencyType_SIMPLE = (''SIMPLE'', 1)"

record dependency =
  component_name :: "string option"
  component_type :: pytype
  dependency_type :: enum_member

definition Dependency :: "string option \<Rightarrow> pytype \<Rightarrow> enum_member \<Rightarrow> dependency" where
  "Dependency n t k = \<lparr>component_name = n, component_type = t, dependency_type = k\<rparr>"

text \<open>The loop of \<open>generate_dependency_list\<close> over \<open>sig.parameters\<close>.\<close>

fun dependencies_of :: "parameter list \<Rightarrow> dependency list" where
  "dependencies_of [] = []"
| "dependencies_of (p # ps) =
     (let name = param_name p;
          cls = (case param_annotation p of Some a \<Rightarrow> a | None \<Rightarrow> object_type)
      in if name \<notin> set IGNORED_PARAMETERS_NAMES
         then Dependency (Some name) cls DependencyType_SIMPLE # dependencies_of ps
         else dependencies_of ps)"

fun generate_dependency_list :: "pycallable \<Rightarrow> error + dependency list" where
  "generate_dependency_list NotCallable = Inl InvalidArgumentException"
| "generate_dependency_list ClassValue = Inl InvalidArgumentException"
| "generate_dependency_list (PyFunction ps) = Inr (dependencies_of ps)"

section \<open>factory.py and factories.py: the factory objects\<close>

text \<open>
  One record for the three concrete factory classes. \<open>f_kind\<close> tells the class and
  holds its \<open>_instance\<close>: the fixed instance of a static factory, the lazily created
  one of a singleton factory (\<open>None\<close> until created). \<open>f_init_factories\<close> refers to
  the resolved factories by their registered names.
\<close>

datatype factory_kind = Static pyobj | Singleton "pyobj option" | Prototype

record factory =
  f_kind :: factory_kind
  f_component_name :: string
  f_component_type :: pyclass
  f_initialized :: bool
  f_init_dependencies :: "string list"
  f_requirements :: "dependency list"
  f_init_factories :: "string list option"

definition StaticComponentFactory :: "string \<Rightarrow> pyobj \<Rightarrow> factory" where
  "StaticComponentFactory name instance =
     \<lparr>f_kind = Static instance, f_component_name = name, f_component_type = obj_type instance,
      f_initialized = True, f_init_dependencies = [], f_requirements = [],
      f_init_factories = None\<rparr>"

definition SingletonComponentFactory :: "string \<Rightarrow> pyclass \<Rightarrow> dependency list \<Rightarrow> factory" where
  "SingletonComponentFactory name ty requirements =
     \<lparr>f_kind = Singleton None, f_component_name = name, f_component_type = ty,
      f_initialized = False, f_init_dependencies = [], f_requirements = requirements,
      f_init_factories = None\<rparr>"

definition PrototypeComponentFactory :: "string \<Rightarrow> pyclass \<Rightarrow> dependency list \<Rightarrow> factory" where
  "PrototypeComponentFactory name ty requirements =
     \<lparr>f_kind = Prototype, f_component_name = name, f_component_type = ty,
      f_initialized = False, f_init_dependencies = [], f_requirements = requirements,
      f_init_factories = None\<rparr>"

definition is_type_of :: "factory \<Rightarrow> pytype \<Rightarrow> bool" where
  "is_type_of f cls = issubclass (cls_type (f_component_type f)) cls"

section \<open>The state: repository, detector context, allocation\<close>

text \<open>
  The repository's three indices (\<open>factory_by_name\<close> is a dictionary, kept as the
  list of its items in insertion order: \<open>map_of\<close> looks a name up and \<open>AList.update\<close>
  is the assignment \<open>d[k] = v\<close>; it owns the factory records, and \<open>factories\<close> lists
  the same factories, by name), the calling thread's stack of \<open>DependencyCyclicDetector\<close>, and the identity
  the next constructed object gets.
\<close>

record state =
  factories :: "string list"
  factory_by_name :: "(string \<times> factory) list"
  available_component_types :: "pytype set"
  detector_context :: "string list"
  next_id :: nat

type_synonym 'a result = "(error + 'a) \<times> state"

datatype key = KeyStr string | KeyType pytype | KeyOther bool

subsection \<open>repository.py\<close>

definition find_by_name :: "state \<Rightarrow> string \<Rightarrow> factory option" where
  "find_by_name st name = map_of (factory_by_name st) name"

definition find_by_type :: "state \<Rightarrow> pytype \<Rightarrow> (string \<times> factory) list" where
  "find_by_type st ty = filter (\<lambda>fp. is_type_of (snd fp) ty) (factory_by_name st)"

definition register_factory :: "string \<Rightarrow> factory \<Rightarrow> state \<Rightarrow> unit result" where
  "register_factory name f st =
     (if name \<in> set (map fst (factory_by_name st)) then (Inl NameAlreadyDefinedException, st)
      else (Inr (),
            st\<lparr>factory_by_name := AList.update name f (factory_by_name st),
               factories := factories st @ [name],
               available_component_types :=
                 insert (cls_type (f_component_type f)) (available_component_types st)\<rparr>))"

text \<open>
  \<open>KeyOther h\<close> is a key that is neither a \<open>str\<close> nor a \<open>type\<close>; \<open>h\<close> tells whether
  it has a \<open>__name__\<close>, which the error message of \<open>exist\<close> reads.
\<close>

fun exist :: "key \<Rightarrow> state \<Rightarrow> error + bool" where
  "exist (KeyStr k) st = Inr (k \<in> set (map fst (factory_by_name st)))"
| "exist (KeyType t) st = Inr (t \<in> available_component_types st)"
| "exist (KeyOther h) st = Inl (if h then InvalidArgumentException else PyAttributeError)"

text \<open>
  An assignment to attributes of the factory object registered under \<open>name\<close>: the
  entry that \<open>find_by_name\<close> finds is replaced where it stands.
\<close>

definition modify_factory :: "string \<Rightarrow> (factory \<Rightarrow> factory) \<Rightarrow> state \<Rightarrow> state" where
  "modify_factory name g st =
     st\<lparr>factory_by_name := AList.map_entry name g (factory_by_name st)\<rparr>"

subsection \<open>AbstractCreatingComponentFactory.post_init\<close>

text \<open>
  The body of the loop for one requirement, up to the two \<open>append\<close>s: the name and
  the factory it resolves to, or the exception.
\<close>

definition post_init_step :: "state \<Rightarrow> dependency \<Rightarrow> error + (string \<times> string)" where
  "post_init_step st req =
     (case (case component_name req of
              None \<Rightarrow> Inr None
            | Some rn \<Rightarrow>
                (case find_by_name st rn of
                   None \<Rightarrow> Inr None
                 | Some f \<Rightarrow>
                     if \<not> is_type_of f (component_type req) then Inl TypeMismatchException
                     else Inr (Some (rn, rn)))) of
        Inl e \<Rightarrow> Inl e
      | Inr (Some r) \<Rightarrow> Inr r
      | Inr None \<Rightarrow>
          (case find_by_type st (component_type req) of
             [] \<Rightarrow> Inl UnknownComponentException
           | [fp] \<Rightarrow> Inr (fst fp, fst fp)
           | _ # _ # _ \<Rightarrow> Inl TooManyDefinitionsException))"

fun post_init_loop :: "string \<Rightarrow> dependency list \<Rightarrow> state \<Rightarrow> unit result" where
  "post_init_loop self [] st = (Inr (), st)"
| "post_init_loop self (req # reqs) st =
     (case post_init_step st req of
        Inl e \<Rightarrow> (Inl e, st)
      | Inr (name, fac) \<Rightarrow>
          post_init_loop self reqs
            (modify_factory self
               (\<lambda>f. f\<lparr>f_init_factories := map_option (\<lambda>fs. fs @ [fac]) (f_init_factories f),
                      f_init_dependencies := f_init_dependencies f @ [name]\<rparr>) st))"

definition post_init :: "string \<Rightarrow> state \<Rightarrow> unit result" where
  "post_init self st =
     (case find_by_name st self of
        None \<Rightarrow> (Inl DanglingReference, st)
      | Some f \<Rightarrow>
          (case f_kind f of
             Static _ \<Rightarrow> (Inr (), st)
           | _ \<Rightarrow>
               (case post_init_loop self (f_requirements f)
                       (modify_factory self (\<lambda>f. f\<lparr>f_init_factories := Some []\<rparr>) st) of
                  (Inl e, st') \<Rightarrow> (Inl e, st')
                | (Inr _, st') \<Rightarrow>
                    (Inr (), modify_factory self (\<lambda>f. f\<lparr>f_initialized := True\<rparr>) st'))))"

subsection \<open>DependencyCyclicDetector\<close>

definition push :: "string \<Rightarrow> state \<Rightarrow> unit result" where
  "push dependency_name st =
     (if dependency_name \<in> set (detector_context st)
      then (Inl (CyclicDependencyException
                  (dropWhile (\<lambda>x. x \<noteq> dependency_name) (detector_context st) @ [dependency_name])), st)
      else (Inr (), st\<lparr>detector_context := detector_context st @ [dependency_name]\<rparr>))"

definition pop :: "string \<Rightarrow> state \<Rightarrow> unit result" where
  "pop dependency_name st =
     (if detector_context st = [] then (Inl InvalidStateException, st)
      else (let popped_dep_name = last (detector_context st);
                st' = st\<lparr>detector_context := butlast (detector_context st)\<rparr>
            in if popped_dep_name \<noteq> dependency_name then (Inl InvalidStateException, st')
               else (Inr (), st')))"

subsection \<open>Creating components\<close>

text \<open>
  Calling the class: a failure of the constructor, or a new object with the next
  identity.
\<close>

definition construct :: "pyclass \<Rightarrow> pyobj list \<Rightarrow> state \<Rightarrow> pyobj result" where
  "construct cls args st =
     (if cls_init_raises cls then (Inl ConstructorError, st)
      else (Inr (PyObj (next_id st) cls args), st\<lparr>next_id := Suc (next_id st)\<rparr>))"

text \<open>
  \<open>[f.get_object() for f in self._init_factories]\<close>, with \<open>g\<close> for \<open>get_object\<close>.
  A result \<open>None\<close> is a call that has not returned.
\<close>

fun get_objects ::
  "(string \<Rightarrow> state \<Rightarrow> pyobj result option) \<Rightarrow> string list \<Rightarrow> state \<Rightarrow> (pyobj list) result option"
where
  "get_objects g [] st = Some (Inr [], st)"
| "get_objects g (f # fs) st =
     (case g f st of
        None \<Rightarrow> None
      | Some (Inl e, st') \<Rightarrow> Some (Inl e, st')
      | Some (Inr x, st') \<Rightarrow>
          (case get_objects g fs st' of
             None \<Rightarrow> None
           | Some (Inl e, st'') \<Rightarrow> Some (Inl e, st'')
           | Some (Inr xs, st'') \<Rightarrow> Some (Inr (x # xs), st'')))"

text \<open>
  \<open>_create_component\<close>: the \<open>with\<close> block. \<open>__enter__\<close> pushes (when it raises,
  \<open>__exit__\<close> does not run); \<open>__exit__\<close> pops after the body on every path, and an
  exception of its own replaces the body's outcome.
\<close>

definition create_component ::
  "(string \<Rightarrow> state \<Rightarrow> pyobj result option) \<Rightarrow> factory \<Rightarrow> state \<Rightarrow> pyobj result option"
where
  "create_component g self st =
     (case push (f_component_name self) st of
        (Inl e, st1) \<Rightarrow> Some (Inl e, st1)
      | (Inr _, st1) \<Rightarrow>
          (case (if \<not> f_initialized self then Some (Inl InvalidStateException, st1)
                 else (case f_init_factories self of
                         None \<Rightarrow> Some (Inl PyTypeError, st1)
                       | Some fs \<Rightarrow>
                           (case get_objects g fs st1 of
                              None \<Rightarrow> None
                            | Some (Inl e, st2) \<Rightarrow> Some (Inl e, st2)
                            | Some (Inr args, st2) \<Rightarrow>
                                Some (construct (f_component_type self) args st2)))) of
             None \<Rightarrow> None
           | Some (r, st2) \<Rightarrow>
               (case pop (f_component_name self) st2 of
                  (Inl e, st3) \<Rightarrow> Some (Inl e, st3)
                | (Inr _, st3) \<Rightarrow> Some (r, st3))))"

text \<open>
  \<open>get_object\<close> of the factory registered under \<open>name\<close>. The first argument bounds
  the depth of nested calls; \<open>None\<close> is returned when the bound is exhausted.
\<close>

primrec get_object :: "nat \<Rightarrow> string \<Rightarrow> state \<Rightarrow> pyobj result option" where
  "get_object 0 = (\<lambda>name st. None)"
| "get_object (Suc k) = (\<lambda>name st.
     (case find_by_name st name of
        None \<Rightarrow> Some (Inl DanglingReference, st)
      | Some self \<Rightarrow>
          (case f_kind self of
             Static instance \<Rightarrow> Some (Inr instance, st)
           | Singleton (Some instance) \<Rightarrow> Some (Inr instance, st)
           | Singleton None \<Rightarrow>
               (case create_component (get_object k) self st of
                  None \<Rightarrow> None
                | Some (Inl e, st') \<Rightarrow> Some (Inl e, st')
                | Some (Inr x, st') \<Rightarrow>
                    Some (Inr x, modify_factory name (\<lambda>f. f\<lparr>f_kind := Singleton (Some x)\<rparr>) st'))
           | Prototype \<Rightarrow> create_component (get_object k) self st)))"

section \<open>name_resolution.py\<close>

text \<open>
  \<open>PascalToCamelCaseClassTypeResolverStrategy.to_component_name\<close>, on the class's
  \<open>__name__\<close>. Class names are taken to be ASCII: \<open>isupper\<close> holds of the letters A to Z
  and \<open>lower\<close> adds 32 to their code.
\<close>

definition isupper :: "char \<Rightarrow> bool" where
  "isupper ch = (65 \<le> (of_char ch :: nat) \<and> (of_char ch :: nat) \<le> 90)"

definition lower :: "char \<Rightarrow> char" where
  "lower ch = (if isupper ch then char_of ((of_char ch :: nat) + 32) else ch)"

fun to_component_name_loop :: "string \<Rightarrow> string \<Rightarrow> string" where
  "to_component_name_loop cname [] = cname"
| "to_component_name_loop cname (ch # class_name) =
     (if isupper ch
      then to_component_name_loop
             ((if length cname > 0 then cname @ ''_'' else cname) @ [lower ch]) class_name
      else to_component_name_loop (cname @ [ch]) class_name)"

definition to_component_name :: "pyclass \<Rightarrow> string" where
  "to_component_name class_type = to_component_name_loop [] (type_name (cls_type class_type))"

section \<open>container.py\<close>

definition CONTAINER_COMPONENT_NAME :: string where
  "CONTAINER_COMPONENT_NAME = ''container''"

fun setup_loop :: "string list \<Rightarrow> state \<Rightarrow> unit result" where
  "setup_loop [] st = (Inr (), st)"
| "setup_loop (f # fs) st =
     (case post_init f st of
        (Inl e, st') \<Rightarrow> (Inl e, st')
      | (Inr _, st') \<Rightarrow> setup_loop fs st')"

text \<open>\<open>Container.setup\<close> (the plain name is a keyword of Isabelle).\<close>

definition container_setup :: "state \<Rightarrow> unit result" where
  "container_setup st = setup_loop (factories st) st"

definition get_component :: "nat \<Rightarrow> key \<Rightarrow> state \<Rightarrow> pyobj result option" where
  "get_component fuel k st =
     (case k of
        KeyStr name \<Rightarrow>
          (case find_by_name st name of
             None \<Rightarrow> Some (Inl UnknownComponentException, st)
           | Some _ \<Rightarrow> get_object fuel name st)
      | KeyType ty \<Rightarrow>
          (case exist (KeyType ty) st of
             Inl e \<Rightarrow> Some (Inl e, st)
           | Inr found \<Rightarrow>
               if \<not> found then Some (Inl UnknownComponentException, st)
               else (let fs = find_by_type st ty
                     in if length fs > 1 then Some (Inl TooManyDefinitionsException, st)
                        else (case fs of
                                [] \<Rightarrow> Some (Inl PyIndexError, st)
                              | fp # _ \<Rightarrow> get_object fuel (fst fp) st)))
      | KeyOther _ \<Rightarrow> Some (Inl InvalidArgumentException, st))"

definition generate_component_requirements_list :: "pyclass \<Rightarrow> error + dependency list" where
  "generate_component_requirements_list ty = generate_dependency_list (PyFunction (cls_init ty))"

definition register_type :: "pyclass \<Rightarrow> string option \<Rightarrow> state \<Rightarrow> unit result" where
  "register_type ty name_opt st =
     (let name = (case name_opt of None \<Rightarrow> to_component_name ty | Some n \<Rightarrow> n)
      in case generate_component_requirements_list ty of
           Inl e \<Rightarrow> (Inl e, st)
         | Inr requirements \<Rightarrow>
             register_factory name (SingletonComponentFactory name ty requirements) st)"

definition register_instance :: "pyobj \<Rightarrow> string \<Rightarrow> state \<Rightarrow> unit result" where
  "register_instance instance name st =
     register_factory name (StaticComponentFactory name instance) st"

text \<open>
  \<open>register_types\<close>: an argument is a type (\<open>Some\<close>) or some other value (\<open>None\<close>).
\<close>

fun register_types_loop :: "pyclass list \<Rightarrow> state \<Rightarrow> unit result" where
  "register_types_loop [] st = (Inr (), st)"
| "register_types_loop (ty # tys) st =
     (case register_type ty None st of
        (Inl e, st') \<Rightarrow> (Inl e, st')
      | (Inr _, st') \<Rightarrow> register_types_loop tys st')"

definition register_types :: "pyclass option \<Rightarrow> pyclass option list \<Rightarrow> state \<Rightarrow> unit result" where
  "register_types first_arg rest_args st =
     (let all_args = first_arg # rest_args
      in if list_ex (\<lambda>arg. arg = None) all_args then (Inl InvalidArgumentException, st)
         else register_types_loop (List.map_filter (\<lambda>arg. arg) all_args) st)"

text \<open>
  \<open>Container.__init__\<close>. The container is itself an object, of class \<open>Container\<close>; it
  starts from an empty repository and registers itself. The detector's stack of the
  thread is empty when no \<open>get_component\<close> is running.
\<close>

definition Container_class :: pyclass where
  "Container_class =
     \<lparr>cls_type = PyType ''Container'' [],
      cls_init = [\<lparr>param_name = ''self'', param_kind = POSITIONAL_OR_KEYWORD,
                   param_annotation = None\<rparr>],
      cls_init_raises = False\<rparr>"

definition Container_self :: pyobj where
  "Container_self = PyObj 0 Container_class []"

definition Container_init :: state where
  "Container_init =
     snd (register_instance Container_self CONTAINER_COMPONENT_NAME
            \<lparr>factories = [], factory_by_name = [], available_component_types = {},
             detector_context = [], next_id = 1\<rparr>)"

section \<open>Definitions used to state the properties\<close>

text \<open>
  The requirement that one parameter yields: its name, and its annotation or
  \<open>object\<close> when it has none.
\<close>

definition requirement_of :: "parameter \<Rightarrow> dependency" where
  "requirement_of p =
     Dependency (Some (param_name p))
       (case param_annotation p of None \<Rightarrow> object_type | Some a \<Rightarrow> a) DependencyType_SIMPLE"

text \<open>
  The parameters that the specification says are skipped: the implicit \<open>self\<close> and the
  variadic catch-all parameters. (This definition follows the specification's words,
  to be compared with \<open>dependencies_of\<close>.)
\<close>

definition spec_skipped :: "parameter \<Rightarrow> bool" where
  "spec_skipped p =
     (param_name p = ''self'' \<or> param_kind p = VAR_POSITIONAL \<or> param_kind p = VAR_KEYWORD)"

text \<open>
  What \<open>get_object\<close> leaves alone. It assigns only to the \<open>_instance\<close> of singleton
  factories and to the detector's stack, and it constructs objects: \<open>frame\<close> forgets the
  cached instances and the allocation counter, so that two states with the same frame
  have the same factories, wiring and stack.
\<close>

fun erase_kind :: "factory_kind \<Rightarrow> factory_kind" where
  "erase_kind (Static i) = Static i"
| "erase_kind (Singleton _) = Singleton None"
| "erase_kind Prototype = Prototype"

definition erase_factory :: "factory \<Rightarrow> factory" where
  "erase_factory f = f\<lparr>f_kind := erase_kind (f_kind f)\<rparr>"

definition frame :: "state \<Rightarrow> state" where
  "frame st = st\<lparr>next_id := 0,
     factory_by_name := map (\<lambda>fp. (fst fp, erase_factory (snd fp))) (factory_by_name st)\<rparr>"

definition preserves_frame :: "(string \<Rightarrow> state \<Rightarrow> pyobj result option) \<Rightarrow> bool" where
  "preserves_frame g =
     (\<forall>n s r s'. g n s = Some (r, s') \<longrightarrow> frame s' = frame s \<and> next_id s \<le> next_id s')"

text \<open>The component names of the registered factories: what the detector can push.\<close>

definition cnames :: "state \<Rightarrow> string set" where
  "cnames st = set (map (\<lambda>fp. f_component_name (snd fp)) (factory_by_name st))"

text \<open>
  Wiring. An assignment to a factory that leaves its component type alone, and the
  factory after its requirements \<open>reqs\<close> have been resolved and appended, one after the
  other, as \<open>post_init\<close> does.
\<close>

definition keeps_type :: "(factory \<Rightarrow> factory) \<Rightarrow> bool" where
  "keeps_type g = (\<forall>f. f_component_type (g f) = f_component_type f)"

definition wired :: "state \<Rightarrow> dependency list \<Rightarrow> factory \<Rightarrow> factory" where
  "wired st reqs f =
     f\<lparr>f_init_factories :=
          map_option (\<lambda>fs. fs @ map (\<lambda>r. snd (projr (post_init_step st r))) reqs)
            (f_init_factories f),
       f_init_dependencies :=
          f_init_dependencies f @ map (\<lambda>r. fst (projr (post_init_step st r))) reqs\<rparr>"

text \<open>
  The container's own registration: the factory under the name \<open>container\<close> is a
  static factory holding \<open>c\<close>.
\<close>

definition has_container :: "state \<Rightarrow> pyobj \<Rightarrow> bool" where
  "has_container st c =
     (case find_by_name st CONTAINER_COMPONENT_NAME of
        None \<Rightarrow> False
      | Some f \<Rightarrow> f_kind f = Static c)"

text \<open>
  A factory from which \<open>get_object\<close> can create within depth \<open>k\<close>, with \<open>stack\<close> the
  names that are being created: a static factory; or a creating factory that is wired
  (\<open>_initialized\<close>, holding its resolved factories), whose name is not on the stack,
  whose constructor does not raise, and whose resolved factories are all such factories
  within depth \<open>k - 1\<close> once its name is on the stack.
\<close>

primrec creatable :: "nat \<Rightarrow> state \<Rightarrow> string list \<Rightarrow> string \<Rightarrow> bool" where
  "creatable 0 = (\<lambda>st stack name. False)"
| "creatable (Suc k) = (\<lambda>st stack name.
     (case find_by_name st name of
        None \<Rightarrow> False
      | Some f \<Rightarrow>
          (case f_kind f of
             Static _ \<Rightarrow> True
           | _ \<Rightarrow>
               f_initialized f \<and> f_component_name f \<notin> set stack
               \<and> \<not> cls_init_raises (f_component_type f)
               \<and> (case f_init_factories f of
                     None \<Rightarrow> False
                   | Some fs \<Rightarrow> list_all (creatable k st (stack @ [f_component_name f])) fs))))"

subsection \<open>Example containers\<close>

text \<open>
  The classes of \<open>test_container.py\<close>: \<open>A(b)\<close>, \<open>B(c)\<close>, \<open>C(a)\<close> registered with
  \<open>register_types\<close> and set up; \<open>SampleClass\<close> without dependencies; a string instance;
  a prototype factory for \<open>SampleClass\<close>, registered with the repository directly.
\<close>

definition self_param :: parameter where
  "self_param = \<lparr>param_name = ''self'', param_kind = POSITIONAL_OR_KEYWORD, param_annotation = None\<rparr>"

definition plain_param :: "string \<Rightarrow> pytype option \<Rightarrow> parameter" where
  "plain_param n a = \<lparr>param_name = n, param_kind = POSITIONAL_OR_KEYWORD, param_annotation = a\<rparr>"

definition class_A :: pyclass where
  "class_A = \<lparr>cls_type = PyType ''A'' [], cls_init = [self_param, plain_param ''b'' None],
              cls_init_raises = False\<rparr>"

definition class_B :: pyclass where
  "class_B = \<lparr>cls_type = PyType ''B'' [], cls_init = [self_param, plain_param ''c'' None],
              cls_init_raises = False\<rparr>"

definition class_C :: pyclass where
  "class_C = \<lparr>cls_type = PyType ''C'' [], cls_init = [self_param, plain_param ''a'' None],
              cls_init_raises = False\<rparr>"

definition example_cyclic :: state where
  "example_cyclic =
     snd (container_setup
       (snd (register_types (Some class_A) [Some class_B, Some class_C] Container_init)))"

definition SampleClass :: pyclass where
  "SampleClass = \<lparr>cls_type = PyType ''SampleClass'' [], cls_init = [self_param],
                  cls_init_raises = False\<rparr>"

definition example_message :: pyobj where
  "example_message =
     PyObj 100 \<lparr>cls_type = PyType ''str'' [], cls_init = [self_param], cls_init_raises = False\<rparr> []"

definition example_sample :: state where
  "example_sample = snd (container_setup (snd (register_type SampleClass None Container_init)))"

definition example_prototype :: state where
  "example_prototype =
     snd (container_setup
       (snd (register_factory ''proto'' (PrototypeComponentFactory ''proto'' SampleClass [])
              Container_init)))"

text \<open>
  A class \<open>Derived(Base)\<close>, registered alone: \<open>Base\<close> itself is never registered.
\<close>

definition class_Base :: pyclass where
  "class_Base = \<lparr>cls_type = PyType ''Base'' [], cls_init = [self_param],
                 cls_init_raises = False\<rparr>"

definition class_Derived :: pyclass where
  "class_Derived = \<lparr>cls_type = PyType ''Derived'' [PyType ''Base'' []], cls_init = [self_param],
                    cls_init_raises = False\<rparr>"

definition example_derived :: state where
  "example_derived = snd (container_setup (snd (register_type class_Derived None Container_init)))"

text \<open>
  A class with a parameter \<open>c: Container\<close>, in a container where the name \<open>c\<close> is bound
  to a string.
\<close>

definition class_NeedsContainer :: pyclass where
  "class_NeedsContainer =
     \<lparr>cls_type = PyType ''NeedsContainer'' [],
      cls_init = [self_param, plain_param ''c'' (Some (PyType ''Container'' []))],
      cls_init_raises = False\<rparr>"

definition example_clash :: state where
  "example_clash =
     snd (register_type class_NeedsContainer None
            (snd (register_instance example_message ''c'' Container_init)))"

text \<open>
  A class with a parameter \<open>container: Container\<close>, registered alone and set up.
\<close>

definition class_InjectableContainer :: pyclass where
  "class_InjectableContainer =
     \<lparr>cls_type = PyType ''InjectableContainer'' [],
      cls_init = [self_param, plain_param ''container'' (Some (PyType ''Container'' []))],
      cls_init_raises = False\<rparr>"

definition example_inject :: state where
  "example_inject =
     snd (container_setup (snd (register_type class_InjectableContainer None Container_init)))"

text \<open>
  \<open>SampleClass\<close> and a class \<open>Holder(sample_class: SampleClass)\<close> registered with
  \<open>register_types\<close>, and a prototype factory for \<open>Holder\<close> registered with the
  repository directly; then set up.
\<close>

definition class_Holder :: pyclass where
  "class_Holder =
     \<lparr>cls_type = PyType ''Holder'' [],
      cls_init = [self_param, plain_param ''sample_class'' (Some (PyType ''SampleClass'' []))],
      cls_init_raises = False\<rparr>"

definition example_holder :: state where
  "example_holder =
     snd (container_setup
       (snd (register_factory ''proto_holder''
               (PrototypeComponentFactory ''proto_holder'' class_Holder
                  [Dependency (Some ''sample_class'') (PyType ''SampleClass'' [])
                     DependencyType_SIMPLE])
               (snd (register_types (Some SampleClass) [Some class_Holder] Container_init)))))"

section \<open>The dependency kinds\<close>

lemma enum_members_DependencyType:
  "enum_members [] DependencyType_body = [(''SIMPLE'', 1), (''SET'', 2), (''DICTIONARY'', 3)]"
  by (simp add: DependencyType_body_def)

lemma DependencyType_LIST: "DependencyType ''LIST'' = Some (''SIMPLE'', 1)"
  unfolding DependencyType_def enum_attr_def enum_members_DependencyType
  by (simp add: DependencyType_body_def)

lemma DependencyType_SIMPLE: "DependencyType ''SIMPLE'' = Some (''SIMPLE'', 1)"
  unfolding DependencyType_def enum_attr_def enum_members_DependencyType
  by (simp add: DependencyType_body_def)

text \<open>
  C10. In the enumeration of dependency kinds \<open>LIST\<close> and \<open>SIMPLE\<close> are both bound to the
  value 1, so \<open>DependencyType.LIST\<close> is the member \<open>DependencyType.SIMPLE\<close>: a requirement
  built with \<open>LIST\<close> is equal to the one built with \<open>SIMPLE\<close>, and whatever a piece of code
  \<open>f\<close> computes from the kind, it computes the same from both.
\<close>

theorem C10_list_is_simple:
  "DependencyType ''LIST'' = DependencyType ''SIMPLE''
   \<and> DependencyType ''SIMPLE'' = Some DependencyType_SIMPLE
   \<and> map_option snd (DependencyType ''LIST'') = Some 1
   \<and> map_option snd (DependencyType ''SIMPLE'') = Some 1
   \<and> map_option (Dependency n t) (DependencyType ''LIST'')
       = map_option (Dependency n t) (DependencyType ''SIMPLE'')
   \<and> f (DependencyType ''LIST'') = f (DependencyType ''SIMPLE'')"
  by (simp add: DependencyType_LIST DependencyType_SIMPLE DependencyType_SIMPLE_def)

theorem C10_list_is_simple_witness:
  "map_option (Dependency (Some ''b'') object_type) (DependencyType ''LIST'')
     = Some \<lparr>component_name = Some ''b'', component_type = object_type,
              dependency_type = DependencyType_SIMPLE\<rparr>"
  using C10_list_is_simple [of "Some ''b''" object_type id]
  by (simp add: Dependency_def)

section \<open>Requirement extraction\<close>

lemma dependencies_of_filter:
  "dependencies_of ps =
     map requirement_of (filter (\<lambda>p. param_name p \<notin> {''self'', ''args'', ''kwargs''}) ps)"
  by (induction ps)
     (auto simp: requirement_of_def IGNORED_PARAMETERS_NAMES_def Let_def split: option.splits)

text \<open>
  C5, as the code has it. Extraction fails with \<open>InvalidArgumentException\<close> on a value that
  is not callable and on a class. On a function or method it yields, in order, one
  requirement for every parameter whose name is not \<open>self\<close>, \<open>args\<close> or \<open>kwargs\<close>,
  whatever the kind of the parameter: the requirement's name is the parameter's name and
  its type is the annotation, or \<open>object\<close> without one. A signature without parameters
  yields the empty list.
\<close>

theorem C5_extraction_by_name:
  "generate_dependency_list NotCallable = Inl InvalidArgumentException
   \<and> generate_dependency_list ClassValue = Inl InvalidArgumentException
   \<and> generate_dependency_list (PyFunction ps) =
       Inr (map requirement_of
             (filter (\<lambda>p. param_name p \<notin> {''self'', ''args'', ''kwargs''}) ps))
   \<and> generate_dependency_list (PyFunction []) = Inr []"
  by (simp add: dependencies_of_filter)

theorem C5_extraction_by_name_witness:
  "generate_dependency_list (PyFunction
     [\<lparr>param_name = ''self'', param_kind = POSITIONAL_OR_KEYWORD, param_annotation = None\<rparr>,
      \<lparr>param_name = ''name'', param_kind = POSITIONAL_OR_KEYWORD,
        param_annotation = Some (PyType ''str'' [])\<rparr>,
      \<lparr>param_name = ''args'', param_kind = VAR_POSITIONAL, param_annotation = None\<rparr>,
      \<lparr>param_name = ''kwargs'', param_kind = VAR_KEYWORD, param_annotation = None\<rparr>])
   = Inr [Dependency (Some ''name'') (PyType ''str'' []) DependencyType_SIMPLE]"
  using C5_extraction_by_name [of
     "[\<lparr>param_name = ''self'', param_kind = POSITIONAL_OR_KEYWORD, param_annotation = None\<rparr>,
      \<lparr>param_name = ''name'', param_kind = POSITIONAL_OR_KEYWORD,
        param_annotation = Some (PyType ''str'' [])\<rparr>,
      \<lparr>param_name = ''args'', param_kind = VAR_POSITIONAL, param_annotation = None\<rparr>,
      \<lparr>param_name = ''kwargs'', param_kind = VAR_KEYWORD, param_annotation = None\<rparr>]"]
  by (simp add: requirement_of_def)

text \<open>
  The claim as the specification words it fails: the variadic parameter of
  \<open>def __init__(self, *values)\<close> is not skipped.
\<close>

theorem C5_variadic_not_skipped_counterexample:
  "\<not> (\<forall>ps. generate_dependency_list (PyFunction ps) =
            Inr (map requirement_of (filter (\<lambda>p. \<not> spec_skipped p) ps)))"
proof
  assume claim: "\<forall>ps. generate_dependency_list (PyFunction ps) =
                      Inr (map requirement_of (filter (\<lambda>p. \<not> spec_skipped p) ps))"
  have "generate_dependency_list (PyFunction
          [\<lparr>param_name = ''self'', param_kind = POSITIONAL_OR_KEYWORD, param_annotation = None\<rparr>,
           \<lparr>param_name = ''values'', param_kind = VAR_POSITIONAL, param_annotation = None\<rparr>])
        = Inr [Dependency (Some ''values'') object_type DependencyType_SIMPLE]"
    by (simp add: IGNORED_PARAMETERS_NAMES_def)
  with claim show False
    by (simp add: spec_skipped_def)
qed

section \<open>What creating a component preserves\<close>

lemma frame_context [simp]: "detector_context (frame st) = detector_context st"
  by (simp add: frame_def)

lemma frame_context_update [simp]:
  "frame (st\<lparr>detector_context := c\<rparr>) = (frame st)\<lparr>detector_context := c\<rparr>"
  by (simp add: frame_def)

lemma frame_next_id_update [simp]: "frame (st\<lparr>next_id := i\<rparr>) = frame st"
  by (simp add: frame_def)

lemma frame_eq_context: "frame s = frame t \<Longrightarrow> detector_context s = detector_context t"
  by (metis frame_context)

lemma map_of_map_snd:
  "map_of (map (\<lambda>fp. (fst fp, h (snd fp))) xs) n = map_option h (map_of xs n)"
  by (induction xs) auto

lemma map_entry_map_snd:
  "(\<And>v. map_of xs n = Some v \<Longrightarrow> h (g v) = h v) \<Longrightarrow>
   map (\<lambda>fp. (fst fp, h (snd fp))) (AList.map_entry n g xs) = map (\<lambda>fp. (fst fp, h (snd fp))) xs"
  by (induction xs) auto

lemma find_by_name_frame:
  "find_by_name (frame st) n = map_option erase_factory (find_by_name st n)"
  by (simp add: find_by_name_def frame_def map_of_map_snd)

lemma frame_modify_factory:
  "(\<And>f. find_by_name st n = Some f \<Longrightarrow> erase_factory (g f) = erase_factory f) \<Longrightarrow>
   frame (modify_factory n g st) = frame st"
  by (simp add: frame_def modify_factory_def find_by_name_def map_entry_map_snd)

lemma next_id_modify_factory [simp]: "next_id (modify_factory n g st) = next_id st"
  by (simp add: modify_factory_def)

lemma context_modify_factory [simp]:
  "detector_context (modify_factory n g st) = detector_context st"
  by (simp add: modify_factory_def)

lemma get_objects_frame:
  "preserves_frame g \<Longrightarrow> get_objects g fs st = Some (r, st') \<Longrightarrow>
   frame st' = frame st \<and> next_id st \<le> next_id st'"
proof (induction fs arbitrary: st r st')
  case Nil
  then show ?case by simp
next
  case (Cons f fs)
  show ?case
  proof (cases "g f st")
    case None
    with Cons.prems show ?thesis by simp
  next
    case (Some a)
    obtain r1 s1 where a: "a = (r1, s1)" by (cases a)
    from Cons.prems(1) Some a have f1: "frame s1 = frame st" "next_id st \<le> next_id s1"
      by (auto simp: preserves_frame_def)
    show ?thesis
    proof (cases r1)
      case (Inl e)
      with Cons.prems Some a f1 show ?thesis by auto
    next
      case (Inr x)
      show ?thesis
      proof (cases "get_objects g fs s1")
        case None
        with Cons.prems Some a Inr show ?thesis by simp
      next
        case (Some b)
        obtain r2 s2 where b: "b = (r2, s2)" by (cases b)
        from Cons.IH [OF Cons.prems(1)] Some b
        have f2: "frame s2 = frame s1" "next_id s1 \<le> next_id s2" by auto
        from Cons.prems(2) \<open>g f st = Some a\<close> a Inr Some b have "st' = s2"
          by (cases r2) auto
        with f1 f2 show ?thesis by simp
      qed
    qed
  qed
qed

lemma push_ok:
  "push n st = (Inr u, st1) \<Longrightarrow> st1 = st\<lparr>detector_context := detector_context st @ [n]\<rparr>"
  by (auto simp: push_def split: if_splits)

lemma push_err: "push n st = (Inl e, st1) \<Longrightarrow> st1 = st"
  by (auto simp: push_def split: if_splits)

lemma pop_after:
  "detector_context s = c @ [n] \<Longrightarrow> pop n s = (Inr (), s\<lparr>detector_context := c\<rparr>)"
  by (simp add: pop_def Let_def)

lemma construct_frame:
  "construct cls args s = (r, s') \<Longrightarrow> frame s' = frame s \<and> next_id s \<le> next_id s'"
  by (auto simp: construct_def split: if_splits)

lemma frame_restore:
  assumes "frame s2 = frame (st\<lparr>detector_context := c @ [n]\<rparr>)" and "c = detector_context st"
  shows "frame (s2\<lparr>detector_context := c\<rparr>) = frame st"
proof -
  have "frame (s2\<lparr>detector_context := c\<rparr>) = (frame s2)\<lparr>detector_context := c\<rparr>" by simp
  also have "\<dots> = (frame st)\<lparr>detector_context := c\<rparr>" using assms(1) by simp
  also have "\<dots> = frame st" using assms(2) by (simp add: frame_def)
  finally show ?thesis .
qed

lemma create_component_frame:
  assumes g: "preserves_frame g" and c: "create_component g self st = Some (r, st')"
  shows "frame st' = frame st \<and> next_id st \<le> next_id st'"
proof (cases "f_component_name self \<in> set (detector_context st)")
  case True
  with c show ?thesis by (auto simp: create_component_def push_def)
next
  case False
  let ?n = "f_component_name self"
  define st1 where "st1 = st\<lparr>detector_context := detector_context st @ [?n]\<rparr>"
  have p: "push ?n st = (Inr (), st1)" using False by (simp add: push_def st1_def)
  define body where "body =
     (if \<not> f_initialized self then Some (Inl InvalidStateException, st1)
      else (case f_init_factories self of
              None \<Rightarrow> Some (Inl PyTypeError, st1)
            | Some fs \<Rightarrow>
                (case get_objects g fs st1 of
                   None \<Rightarrow> None
                 | Some (Inl e, st2) \<Rightarrow> Some (Inl e, st2)
                 | Some (Inr args, st2) \<Rightarrow> Some (construct (f_component_type self) args st2))))"
  have cc: "create_component g self st =
     (case body of None \<Rightarrow> None
      | Some (r, st2) \<Rightarrow> (case pop ?n st2 of (Inl e, st3) \<Rightarrow> Some (Inl e, st3)
                                          | (Inr _, st3) \<Rightarrow> Some (r, st3)))"
    using p by (simp add: create_component_def body_def)
  have b: "\<And>r2 s2. body = Some (r2, s2) \<Longrightarrow> frame s2 = frame st1 \<and> next_id st1 \<le> next_id s2"
    unfolding body_def
    using get_objects_frame [OF g] construct_frame
    by (fastforce split: if_splits option.splits sum.splits prod.splits)
  from c cc obtain r2 s2 where bs: "body = Some (r2, s2)"
    by (cases body) auto
  from b [OF bs] have f2: "frame s2 = frame st1" "next_id st1 \<le> next_id s2" by auto
  then have "detector_context s2 = detector_context st @ [?n]"
    using frame_eq_context [of s2 st1] by (simp add: st1_def)
  then have pp: "pop ?n s2 = (Inr (), s2\<lparr>detector_context := detector_context st\<rparr>)"
    by (rule pop_after)
  from c cc bs pp have "st' = s2\<lparr>detector_context := detector_context st\<rparr>" by simp
  moreover have "frame (s2\<lparr>detector_context := detector_context st\<rparr>) = frame st"
    using f2(1) by (intro frame_restore [where n = "?n"]) (simp_all add: st1_def)
  moreover have "next_id st \<le> next_id s2" using f2(2) by (simp add: st1_def)
  ultimately show ?thesis by simp
qed

lemma erase_singleton:
  "erase_factory f = erase_factory f0 \<Longrightarrow> f_kind f0 = Singleton c \<Longrightarrow>
   erase_factory (f\<lparr>f_kind := Singleton c'\<rparr>) = erase_factory f"
  by (cases "f_kind f") (auto simp: erase_factory_def dest: arg_cong [where f = f_kind])

lemma get_object_preserves_frame: "preserves_frame (get_object k)"
proof (induction k)
  case 0
  show ?case by (simp add: preserves_frame_def)
next
  case (Suc k)
  show ?case
    unfolding preserves_frame_def
  proof (intro allI impI)
    fix n s r s'
    assume a: "get_object (Suc k) n s = Some (r, s')"
    show "frame s' = frame s \<and> next_id s \<le> next_id s'"
    proof (cases "find_by_name s n")
      case None
      with a show ?thesis by simp
    next
      case (Some self)
      show ?thesis
      proof (cases "f_kind self")
        case (Static i)
        with a Some show ?thesis by simp
      next
        case Prototype
        with a Some have "create_component (get_object k) self s = Some (r, s')" by simp
        from create_component_frame [OF Suc this] show ?thesis .
      next
        case (Singleton c)
        show ?thesis
        proof (cases c)
          case (Some i)
          with a \<open>find_by_name s n = Some self\<close> Singleton show ?thesis by simp
        next
          case None
          from a \<open>find_by_name s n = Some self\<close> Singleton None
          obtain r1 s1 where c1: "create_component (get_object k) self s = Some (r1, s1)"
            by (cases "create_component (get_object k) self s") auto
          from create_component_frame [OF Suc c1]
          have f1: "frame s1 = frame s" "next_id s \<le> next_id s1" by auto
          show ?thesis
          proof (cases r1)
            case (Inl e)
            with a \<open>find_by_name s n = Some self\<close> Singleton None c1 f1 show ?thesis by simp
          next
            case (Inr x)
            with a \<open>find_by_name s n = Some self\<close> Singleton None c1
            have s': "s' = modify_factory n (\<lambda>f. f\<lparr>f_kind := Singleton (Some x)\<rparr>) s1" by simp
            have "frame s' = frame s1"
              unfolding s'
            proof (rule frame_modify_factory)
              fix f assume "find_by_name s1 n = Some f"
              then have "map_option erase_factory (find_by_name s n) = Some (erase_factory f)"
                using f1(1) find_by_name_frame [of s1 n] find_by_name_frame [of s n] by simp
              then have "erase_factory f = erase_factory self"
                using \<open>find_by_name s n = Some self\<close> by simp
              then show "erase_factory (f\<lparr>f_kind := Singleton (Some x)\<rparr>) = erase_factory f"
                using Singleton by (rule erase_singleton)
            qed
            with f1 s' show ?thesis by simp
          qed
        qed
      qed
    qed
  qed
qed

section \<open>Termination and the detector's stack\<close>

lemma cnames_frame: "cnames (frame st) = cnames st"
  by (simp add: cnames_def frame_def erase_factory_def comp_def)

lemma frame_eq_cnames: "frame s = frame t \<Longrightarrow> cnames s = cnames t"
  by (metis cnames_frame)

lemma cnames_context_update [simp]: "cnames (st\<lparr>detector_context := c\<rparr>) = cnames st"
  by (simp add: cnames_def)

lemma find_by_name_cnames: "find_by_name st n = Some f \<Longrightarrow> f_component_name f \<in> cnames st"
  by (force simp: find_by_name_def cnames_def dest: map_of_SomeD)

lemma finite_cnames [simp]: "finite (cnames st)"
  by (simp add: cnames_def)

lemma get_objects_total:
  "preserves_frame g \<Longrightarrow> (\<And>f s. frame s = frame st \<Longrightarrow> \<exists>y. g f s = Some y) \<Longrightarrow>
   \<exists>y. get_objects g fs st = Some y"
proof (induction fs arbitrary: st)
  case Nil
  show ?case by simp
next
  case (Cons f fs)
  from Cons.prems(2) [of st f] obtain r1 s1 where g1: "g f st = Some (r1, s1)" by auto
  with Cons.prems(1) have f1: "frame s1 = frame st" by (auto simp: preserves_frame_def)
  have "\<exists>y. get_objects g fs s1 = Some y"
    using Cons.prems(2) f1 by (intro Cons.IH [OF Cons.prems(1)]) simp
  then obtain r2 s2 where g2: "get_objects g fs s1 = Some (r2, s2)" by auto
  show ?case using g1 g2 by (cases r1; cases r2) simp_all
qed

lemma create_component_total:
  assumes g: "preserves_frame g"
    and t: "\<And>f s. frame s = frame (st\<lparr>detector_context := detector_context st @ [f_component_name self]\<rparr>)
               \<Longrightarrow> \<exists>y. g f s = Some y"
  shows "\<exists>y. create_component g self st = Some y"
proof -
  let ?st1 = "st\<lparr>detector_context := detector_context st @ [f_component_name self]\<rparr>"
  have "\<And>fs. \<exists>y. get_objects g fs ?st1 = Some y"
    using get_objects_total [OF g, of ?st1] t by blast
  then show ?thesis
    unfolding create_component_def push_def
    by (auto split: if_splits option.splits sum.splits prod.splits) (metis option.distinct(1))+
qed

lemma get_object_total:
  "card (cnames st - set (detector_context st)) < k \<Longrightarrow> \<exists>y. get_object k n st = Some y"
proof (induction k arbitrary: n st)
  case 0
  then show ?case by simp
next
  case (Suc k)
  show ?case
  proof (cases "find_by_name st n")
    case None
    then show ?thesis by simp
  next
    case (Some self)
    let ?c = "f_component_name self"
    let ?st1 = "st\<lparr>detector_context := detector_context st @ [?c]\<rparr>"
    have cc: "\<exists>y. create_component (get_object k) self st = Some y"
    proof (cases "?c \<in> set (detector_context st)")
      case True
      then show ?thesis by (simp add: create_component_def push_def)
    next
      case False
      have "?c \<in> cnames st - set (detector_context st)"
        using False find_by_name_cnames [OF Some] by simp
      then have "card (cnames st - set (detector_context st) - {?c})
                   < card (cnames st - set (detector_context st))"
        by (intro card_Diff1_less) simp_all
      moreover have "cnames st - set (detector_context ?st1)
                       = cnames st - set (detector_context st) - {?c}" by auto
      ultimately have m: "card (cnames ?st1 - set (detector_context ?st1)) < k"
        using Suc.prems by simp
      show ?thesis
      proof (rule create_component_total [OF get_object_preserves_frame])
        fix f s assume fr: "frame s = frame ?st1"
        have "cnames s = cnames ?st1" using fr by (rule frame_eq_cnames)
        moreover have "detector_context s = detector_context ?st1"
          using fr by (rule frame_eq_context)
        ultimately have "card (cnames s - set (detector_context s)) < k" using m by simp
        then show "\<exists>y. get_object k f s = Some y" by (rule Suc.IH)
      qed
    qed
    then obtain r1 s1 where c1: "create_component (get_object k) self st = Some (r1, s1)" by auto
    show ?thesis
      using Some c1 by (cases "f_kind self") (auto split: option.splits sum.splits)
  qed
qed

lemma card_cnames_le: "card (cnames st) \<le> length (factory_by_name st)"
  unfolding cnames_def by (metis card_length length_map)

text \<open>
  C4. \<open>get_component\<close> returns the detector's stack as it found it, whatever the
  outcome (a component or any exception), and it does return: started with an empty
  stack and a depth bound above the number of registered factories it yields a result,
  and the stack is empty again.
\<close>

theorem C4_stack_empty_on_exit:
  "(get_component fuel k st = Some (r, st') \<longrightarrow> detector_context st' = detector_context st)
   \<and> (detector_context st = [] \<and> length (factory_by_name st) < fuel \<longrightarrow>
        (\<exists>r' s'. get_component fuel k st = Some (r', s') \<and> detector_context s' = []))"
proof -
  have pres: "\<And>n r s'. get_object fuel n st = Some (r, s') \<Longrightarrow>
                 detector_context s' = detector_context st"
    using get_object_preserves_frame [of fuel] frame_eq_context
    unfolding preserves_frame_def by blast
  have a: "\<And>r st'. get_component fuel k st = Some (r, st') \<Longrightarrow>
             detector_context st' = detector_context st"
    unfolding get_component_def
    by (auto simp: Let_def dest: pres split: key.splits option.splits if_splits list.splits)
  have b: "\<exists>y. get_component fuel k st = Some y"
    if "detector_context st = []" "length (factory_by_name st) < fuel"
  proof -
    have "card (cnames st - set (detector_context st)) < fuel"
      using that card_cnames_le [of st] by simp
    then have "\<And>n. \<exists>y. get_object fuel n st = Some y" by (rule get_object_total)
    then show ?thesis
      unfolding get_component_def
      by (auto simp: Let_def split: key.splits option.splits if_splits list.splits)
  qed
  show ?thesis using a b by fastforce
qed

lemma example_cyclic_context: "detector_context example_cyclic = []"
  by code_simp

lemma example_cyclic_size: "length (factory_by_name example_cyclic) < 5"
  by code_simp

theorem C4_stack_empty_on_exit_witness:
  "\<exists>r' s'. get_component 5 (KeyStr ''b'') example_cyclic = Some (r', s') \<and> detector_context s' = []"
  using C4_stack_empty_on_exit [of 5 "KeyStr ''b''" example_cyclic] example_cyclic_context example_cyclic_size by simp

section \<open>Registration\<close>

lemma register_factory_bound:
  "register_factory n f st = (Inr u, st1) \<Longrightarrow> find_by_name st1 n = Some f"
  by (auto simp: register_factory_def find_by_name_def update_conv' split: if_splits)

lemma register_factory_keys:
  "register_factory n f st = (Inr u, st1) \<Longrightarrow> n \<in> set (map fst (factory_by_name st1))"
  by (drule register_factory_bound) (auto simp: find_by_name_def dest: map_of_SomeD intro: rev_image_eqI)

lemma register_factory_context:
  "register_factory n f st = (r, st1) \<Longrightarrow> detector_context st1 = detector_context st"
  by (auto simp: register_factory_def split: if_splits)

text \<open>
  C9. After a registration under a name has succeeded (by \<open>register_instance\<close> or by
  \<open>register_type\<close>, both of which are \<open>register_factory\<close> with a static or a singleton
  factory), every further registration under that name, of an instance or of a type,
  with the name given or derived from the type, fails with
  \<open>NameAlreadyDefinedException\<close> and returns the repository as it was: the first factory
  is still the one bound to the name.
\<close>

theorem C9_second_registration_fails:
  assumes "register_factory n f1 st = (Inr (), st1)"
  shows "register_factory n f2 st1 = (Inl NameAlreadyDefinedException, st1)
     \<and> register_instance i n st1 = (Inl NameAlreadyDefinedException, st1)
     \<and> register_type ty (Some n) st1 = (Inl NameAlreadyDefinedException, st1)
     \<and> (to_component_name ty = n \<longrightarrow>
          register_type ty None st1 = (Inl NameAlreadyDefinedException, st1))
     \<and> find_by_name st1 n = Some f1
     \<and> register_instance i n st = register_factory n (StaticComponentFactory n i) st
     \<and> register_type ty (Some n) st =
         register_factory n (SingletonComponentFactory n ty (dependencies_of (cls_init ty))) st"
proof -
  have k: "n \<in> set (map fst (factory_by_name st1))"
    using assms by (rule register_factory_keys)
  have a: "\<And>g. register_factory n g st1 = (Inl NameAlreadyDefinedException, st1)"
    using k by (simp add: register_factory_def)
  have b: "find_by_name st1 n = Some f1"
    using assms by (rule register_factory_bound)
  show ?thesis
    using a b
    by (simp add: register_instance_def register_type_def
          generate_component_requirements_list_def Let_def)
qed

lemma example_message_registered: "register_factory ''message'' (StaticComponentFactory ''message'' example_message) Container_init
   = (Inr (), snd (register_instance example_message ''message'' Container_init))"
  by code_simp

theorem C9_second_registration_fails_witness:
  "register_type SampleClass (Some ''message'')
      (snd (register_instance example_message ''message'' Container_init))
    = (Inl NameAlreadyDefinedException,
       snd (register_instance example_message ''message'' Container_init))
   \<and> find_by_name (snd (register_instance example_message ''message'' Container_init)) ''message''
    = Some (StaticComponentFactory ''message'' example_message)"
  using C9_second_registration_fails
    [OF example_message_registered,
      of "StaticComponentFactory ''message'' example_message" example_message SampleClass]
  by blast

section \<open>Before setup\<close>

lemma state_context_id: "detector_context s = c \<Longrightarrow> s\<lparr>detector_context := c\<rparr> = s"
  by simp

lemma create_component_not_initialized:
  assumes "\<not> f_initialized self" and "f_component_name self \<notin> set (detector_context st)"
  shows "create_component g self st = Some (Inl InvalidStateException, st)"
  using assms
  by (simp add: create_component_def push_def pop_def Let_def)

text \<open>
  C7. A component registered with \<open>register_type\<close> and requested by its name before
  \<open>setup\<close> (from the top level: the detector's stack is empty) fails with
  \<open>InvalidStateException\<close>, raised by \<open>_assert_initialized\<close>, and the call leaves the whole
  state as it was, the factory's cache still empty and the stack empty again: a later
  call after \<open>setup\<close> meets the same factory as if this call had not happened.
\<close>

theorem C7_not_initialized_before_setup:
  assumes "register_type ty nm st = (Inr (), st1)" and "detector_context st1 = []"
  shows "get_component (Suc k) (KeyStr (case nm of None \<Rightarrow> to_component_name ty | Some n \<Rightarrow> n)) st1
           = Some (Inl InvalidStateException, st1)"
proof -
  let ?n = "case nm of None \<Rightarrow> to_component_name ty | Some n \<Rightarrow> n"
  let ?f = "SingletonComponentFactory ?n ty (dependencies_of (cls_init ty))"
  from assms(1) have "register_factory ?n ?f st = (Inr (), st1)"
    by (simp add: register_type_def generate_component_requirements_list_def Let_def)
  then have f: "find_by_name st1 ?n = Some ?f" by (rule register_factory_bound)
  have "create_component (get_object k) ?f st1 = Some (Inl InvalidStateException, st1)"
    using assms(2)
    by (intro create_component_not_initialized) (simp_all add: SingletonComponentFactory_def)
  then have "get_object (Suc k) ?n st1 = Some (Inl InvalidStateException, st1)"
    using f by (simp add: SingletonComponentFactory_def)
  then show ?thesis using f by (simp add: get_component_def)
qed

lemma example_sample_registered: "register_type SampleClass None Container_init
   = (Inr (), snd (register_type SampleClass None Container_init))"
  by code_simp

lemma example_sample_context: "detector_context (snd (register_type SampleClass None Container_init)) = []"
  by code_simp

lemma example_sample_name: "to_component_name SampleClass = ''sample_class''"
  by code_simp

theorem C7_not_initialized_before_setup_witness:
  "get_component 1 (KeyStr ''sample_class'') (snd (register_type SampleClass None Container_init))
    = Some (Inl InvalidStateException, snd (register_type SampleClass None Container_init))"
  using C7_not_initialized_before_setup [OF example_sample_registered example_sample_context, of 0] by (simp add: example_sample_name)

section \<open>Singletons and prototypes\<close>

lemma find_by_name_frame_eq:
  "frame s1 = frame s \<Longrightarrow> find_by_name s n = Some f \<Longrightarrow>
   \<exists>f1. find_by_name s1 n = Some f1 \<and> erase_factory f1 = erase_factory f"
  using find_by_name_frame [of s1 n] find_by_name_frame [of s n]
  by (cases "find_by_name s1 n") auto

lemma find_by_name_modify_factory:
  "find_by_name (modify_factory n g st) m =
     (if m = n then map_option g (find_by_name st n) else find_by_name st m)"
  by (auto simp: find_by_name_def modify_factory_def map_of_map_entry split: option.splits)

lemma get_object_frame:
  "get_object k n s = Some (r, s') \<Longrightarrow> frame s' = frame s \<and> next_id s \<le> next_id s'"
  using get_object_preserves_frame [of k] unfolding preserves_frame_def by blast

lemma create_component_fresh:
  assumes g: "preserves_frame g" and c: "create_component g self st = Some (Inr x, st')"
  shows "next_id st \<le> obj_id x \<and> obj_id x < next_id st'"
proof -
  from c have nin: "f_component_name self \<notin> set (detector_context st)"
    by (auto simp: create_component_def push_def split: if_splits)
  let ?st1 = "st\<lparr>detector_context := detector_context st @ [f_component_name self]\<rparr>"
  from c nin obtain fs args s2 s3 where
    go: "get_objects g fs ?st1 = Some (Inr args, s2)" and
    co: "construct (f_component_type self) args s2 = (Inr x, s3)" and
    po: "pop (f_component_name self) s3 = (Inr (), st')"
    by (auto simp: create_component_def push_def
             split: if_splits option.splits sum.splits prod.splits)
  from get_objects_frame [OF g go] have "next_id st \<le> next_id s2" by simp
  moreover from co have "obj_id x = next_id s2" "next_id s3 = Suc (next_id s2)"
    by (auto simp: construct_def split: if_splits)
  moreover from po have "next_id st' = next_id s3"
    by (auto simp: pop_def Let_def split: if_splits)
  ultimately show ?thesis by simp
qed

lemma erase_factory_eq:
  assumes "erase_factory f1 = erase_factory f2"
  shows "f_initialized f1 = f_initialized f2" "f_component_name f1 = f_component_name f2"
    "f_component_type f1 = f_component_type f2" "f_init_factories f1 = f_init_factories f2"
    "erase_kind (f_kind f1) = erase_kind (f_kind f2)"
  using
    arg_cong [OF assms, where f = f_initialized] arg_cong [OF assms, where f = f_component_name]
    arg_cong [OF assms, where f = f_component_type] arg_cong [OF assms, where f = f_init_factories]
    arg_cong [OF assms, where f = f_kind]
  by (simp_all add: erase_factory_def)

lemma creatable_find:
  assumes "\<And>n. map_option erase_factory (find_by_name s n) = map_option erase_factory (find_by_name t n)"
  shows "creatable k s stack n = creatable k t stack n"
proof (induction k arbitrary: stack n)
  case 0
  show ?case by simp
next
  case (Suc k)
  show ?case
  proof (cases "find_by_name s n")
    case None
    with assms [of n] show ?thesis by simp
  next
    case (Some f)
    with assms [of n] obtain g where g: "find_by_name t n = Some g"
      and e: "erase_factory f = erase_factory g" by (cases "find_by_name t n") auto
    note q = erase_factory_eq [OF e]
    have l: "\<And>fs st'. list_all (creatable k s st') fs = list_all (creatable k t st') fs"
      using Suc.IH by (simp add: list_all_iff)
    show ?thesis
      using Some g q l
      by (cases "f_kind f"; cases "f_kind g") (simp_all split: option.splits)
  qed
qed

lemma creatable_frame:
  "frame s = frame t \<Longrightarrow> creatable k s stack n = creatable k t stack n"
proof (rule creatable_find)
  fix m assume "frame s = frame t"
  then show "map_option erase_factory (find_by_name s m)
               = map_option erase_factory (find_by_name t m)"
    using find_by_name_frame [of s m] find_by_name_frame [of t m] by simp
qed

lemma creatable_context [simp]:
  "creatable k (st\<lparr>detector_context := c\<rparr>) = creatable k st"
  by (intro ext, rule creatable_find) (simp add: find_by_name_def)

lemma get_objects_creatable:
  assumes ih: "\<And>n s. creatable k s (detector_context s) n
                  \<Longrightarrow> \<exists>x s'. get_object k n s = Some (Inr x, s')"
  shows "list_all (creatable k s (detector_context s)) fs \<Longrightarrow>
         \<exists>xs s'. get_objects (get_object k) fs s = Some (Inr xs, s') \<and> frame s' = frame s"
proof (induction fs arbitrary: s)
  case Nil
  show ?case by simp
next
  case (Cons d ds)
  from Cons.prems have "creatable k s (detector_context s) d" by simp
  from ih [OF this] obtain x s1 where g1: "get_object k d s = Some (Inr x, s1)" by blast
  from get_object_frame [OF g1] have f1: "frame s1 = frame s" by simp
  then have c1: "detector_context s1 = detector_context s" by (rule frame_eq_context)
  have "list_all (creatable k s1 (detector_context s1)) ds"
    using Cons.prems creatable_frame [OF f1] c1 by (simp add: list_all_iff)
  from Cons.IH [OF this] obtain xs s2 where
    g2: "get_objects (get_object k) ds s1 = Some (Inr xs, s2)" and f2: "frame s2 = frame s1"
    by blast
  show ?case using g1 g2 f1 f2 by simp
qed

lemma create_component_creatable:
  assumes ih: "\<And>n s. creatable k s (detector_context s) n
                  \<Longrightarrow> \<exists>x s'. get_object k n s = Some (Inr x, s')"
    and i: "f_initialized f" and fresh: "f_component_name f \<notin> set (detector_context st)"
    and ok: "\<not> cls_init_raises (f_component_type f)"
    and fs: "f_init_factories f = Some fs"
    and cr: "list_all (creatable k st (detector_context st @ [f_component_name f])) fs"
  shows "\<exists>x st'. create_component (get_object k) f st = Some (Inr x, st')
                  \<and> obj_type x = f_component_type f"
proof -
  let ?s1 = "st\<lparr>detector_context := detector_context st @ [f_component_name f]\<rparr>"
  have "list_all (creatable k ?s1 (detector_context ?s1)) fs" using cr by simp
  from get_objects_creatable [OF ih this] obtain args s2 where
    go: "get_objects (get_object k) fs ?s1 = Some (Inr args, s2)" and fr: "frame s2 = frame ?s1"
    by blast
  from fr have "detector_context s2 = detector_context ?s1" by (rule frame_eq_context)
  then have c2: "detector_context s2 = detector_context st @ [f_component_name f]" by simp
  show ?thesis
    using i fresh ok fs go c2
    by (simp add: create_component_def push_def construct_def pop_def Let_def)
qed

lemma get_object_creatable:
  "creatable k st (detector_context st) n \<Longrightarrow> \<exists>x st'. get_object k n st = Some (Inr x, st')"
proof (induction k arbitrary: n st)
  case 0
  then show ?case by simp
next
  case (Suc k)
  from Suc.prems obtain f where f: "find_by_name st n = Some f"
    by (auto split: option.splits)
  show ?case
  proof (cases "f_kind f = Singleton None \<or> f_kind f = Prototype")
    case False
    then show ?thesis using f by (cases "f_kind f") (auto split: option.splits)
  next
    case True
    with Suc.prems f obtain fs where
      i: "f_initialized f" and fresh: "f_component_name f \<notin> set (detector_context st)"
      and ok: "\<not> cls_init_raises (f_component_type f)"
      and fs: "f_init_factories f = Some fs"
      and cr: "list_all (creatable k st (detector_context st @ [f_component_name f])) fs"
      by (auto split: option.splits)
    from create_component_creatable [OF Suc.IH i fresh ok fs cr] obtain x st' where
      "create_component (get_object k) f st = Some (Inr x, st')" by blast
    then show ?thesis using f True by auto
  qed
qed

lemma singleton_cached_after:
  assumes f: "find_by_name st n = Some f" and k: "f_kind f = Singleton c"
    and g: "get_object k n st = Some (Inr x, st')"
  shows "get_object (Suc j) n st' = Some (Inr x, st')"
proof -
  from g obtain k' where k': "k = Suc k'" by (cases k) auto
  have "find_by_name st' n \<noteq> None \<and>
        (\<forall>f'. find_by_name st' n = Some f' \<longrightarrow> f_kind f' = Singleton (Some x))"
  proof (cases c)
    case (Some i)
    with f k g k' show ?thesis by auto
  next
    case None
    with f k g k' obtain s1 where
      c1: "create_component (get_object k') f st = Some (Inr x, s1)" and
      s': "st' = modify_factory n (\<lambda>f. f\<lparr>f_kind := Singleton (Some x)\<rparr>) s1"
      by (auto split: option.splits sum.splits)
    from create_component_frame [OF get_object_preserves_frame c1]
    have "frame s1 = frame st" by simp
    from find_by_name_frame_eq [OF this f] obtain f1 where "find_by_name s1 n = Some f1"
      by blast
    then show ?thesis by (simp add: s' find_by_name_modify_factory)
  qed
  then obtain f' where "find_by_name st' n = Some f'" "f_kind f' = Singleton (Some x)" by auto
  then show ?thesis by simp
qed

lemma prototype_fresh:
  assumes f: "find_by_name st n = Some f" and k: "f_kind f = Prototype"
    and ga: "get_object k n st = Some (Inr xa, sta)"
    and gb: "get_object j n sta = Some (Inr xb, stb)"
  shows "next_id st \<le> obj_id xa \<and> obj_id xa < next_id sta
        \<and> next_id sta \<le> obj_id xb \<and> obj_id xb < next_id stb
        \<and> obj_id xa \<noteq> obj_id xb \<and> xa \<noteq> xb"
proof -
  from ga obtain k' where k': "k = Suc k'" by (cases k) auto
  from gb obtain j' where j': "j = Suc j'" by (cases j) auto
  from f k ga k' have c1: "create_component (get_object k') f st = Some (Inr xa, sta)" by auto
  from ga have "frame sta = frame st" using get_object_frame by blast
  from find_by_name_frame_eq [OF this f] obtain f1 where
    f1: "find_by_name sta n = Some f1" "erase_factory f1 = erase_factory f" by blast
  then have "f_kind f1 = Prototype"
    using k by (cases "f_kind f1") (auto simp: erase_factory_def dest: arg_cong [where f = f_kind])
  with gb j' f1 have c2: "create_component (get_object j') f1 sta = Some (Inr xb, stb)" by auto
  from create_component_fresh [OF get_object_preserves_frame c1]
       create_component_fresh [OF get_object_preserves_frame c2]
  show ?thesis by auto
qed

text \<open>
  C6. When \<open>get_component\<close> has returned an object from a singleton factory, every
  further \<open>get_component\<close> for it returns the same object and changes nothing, so
  nothing is constructed again. Two successive \<open>get_object\<close> calls that return from a
  prototype factory return two objects that were each constructed during their call
  (their identities lie between the allocation counter before and after the call), and
  the two identities differ. And the calls do return objects. Take a factory that is
  wired, as is every factory it reaches through its resolved factories, none of them
  reached again while it is being created, with constructors that do not raise
  (\<open>creatable\<close>). If it is a singleton factory, \<open>get_component\<close> returns an object,
  and a second \<open>get_component\<close> returns that same object and leaves the state as it
  is. If it is a prototype factory, two successive \<open>get_object\<close> calls return two
  different objects, each constructed during its call.
\<close>

theorem C6_singleton_same_prototype_fresh:
  "(find_by_name st n = Some f \<and> f_kind f = Singleton c
      \<and> get_component k (KeyStr n) st = Some (Inr x, st')
    \<longrightarrow> get_component (Suc j) (KeyStr n) st' = Some (Inr x, st'))
   \<and> (find_by_name st n = Some f \<and> f_kind f = Prototype
      \<and> get_object k n st = Some (Inr xa, sta) \<and> get_object j n sta = Some (Inr xb, stb)
    \<longrightarrow> next_id st \<le> obj_id xa \<and> obj_id xa < next_id sta
        \<and> next_id sta \<le> obj_id xb \<and> obj_id xb < next_id stb
        \<and> obj_id xa \<noteq> obj_id xb \<and> xa \<noteq> xb)
   \<and> (find_by_name st n = Some f \<and> f_kind f = Singleton c
      \<and> creatable k st (detector_context st) n
    \<longrightarrow> (\<exists>y s1. get_component k (KeyStr n) st = Some (Inr y, s1)
                \<and> get_component k (KeyStr n) s1 = Some (Inr y, s1)))
   \<and> (find_by_name st n = Some f \<and> f_kind f = Prototype
      \<and> creatable k st (detector_context st) n
    \<longrightarrow> (\<exists>ya s1 yb s2. get_object k n st = Some (Inr ya, s1)
                \<and> get_object k n s1 = Some (Inr yb, s2)
                \<and> ya \<noteq> yb
                \<and> next_id st \<le> obj_id ya \<and> obj_id ya < next_id s1
                \<and> next_id s1 \<le> obj_id yb \<and> obj_id yb < next_id s2))"
proof (intro conjI)
  show "find_by_name st n = Some f \<and> f_kind f = Singleton c
      \<and> get_component k (KeyStr n) st = Some (Inr x, st')
    \<longrightarrow> get_component (Suc j) (KeyStr n) st' = Some (Inr x, st')"
  proof (rule impI)
    assume a: "find_by_name st n = Some f \<and> f_kind f = Singleton c
      \<and> get_component k (KeyStr n) st = Some (Inr x, st')"
    then have g: "get_object k n st = Some (Inr x, st')" by (auto simp: get_component_def)
    from a have "get_object (Suc j) n st' = Some (Inr x, st')"
      using singleton_cached_after [OF _ _ g] by blast
    then show "get_component (Suc j) (KeyStr n) st' = Some (Inr x, st')"
      by (auto simp: get_component_def split: option.splits)
  qed
next
  show "find_by_name st n = Some f \<and> f_kind f = Prototype
      \<and> get_object k n st = Some (Inr xa, sta) \<and> get_object j n sta = Some (Inr xb, stb)
    \<longrightarrow> next_id st \<le> obj_id xa \<and> obj_id xa < next_id sta
        \<and> next_id sta \<le> obj_id xb \<and> obj_id xb < next_id stb
        \<and> obj_id xa \<noteq> obj_id xb \<and> xa \<noteq> xb"
    using prototype_fresh [of st n f k xa sta j xb stb] by blast
next
  show "find_by_name st n = Some f \<and> f_kind f = Singleton c
      \<and> creatable k st (detector_context st) n
    \<longrightarrow> (\<exists>y s1. get_component k (KeyStr n) st = Some (Inr y, s1)
                \<and> get_component k (KeyStr n) s1 = Some (Inr y, s1))"
  proof (rule impI)
    assume a: "find_by_name st n = Some f \<and> f_kind f = Singleton c
      \<and> creatable k st (detector_context st) n"
    then obtain k' where k': "k = Suc k'" by (cases k) auto
    from a get_object_creatable obtain y s1 where
      g: "get_object k n st = Some (Inr y, s1)" by blast
    from a have g2: "get_object k n s1 = Some (Inr y, s1)"
      unfolding k' using singleton_cached_after [OF _ _ g] by blast
    then have "find_by_name s1 n \<noteq> None" unfolding k' by (auto split: option.splits)
    then have c2: "get_component k (KeyStr n) s1 = Some (Inr y, s1)"
      using g2 by (auto simp: get_component_def)
    have c1: "get_component k (KeyStr n) st = Some (Inr y, s1)"
      using a g by (simp add: get_component_def)
    from c1 c2 show "\<exists>y s1. get_component k (KeyStr n) st = Some (Inr y, s1)
                \<and> get_component k (KeyStr n) s1 = Some (Inr y, s1)"
      by blast
  qed
next
  show "find_by_name st n = Some f \<and> f_kind f = Prototype
      \<and> creatable k st (detector_context st) n
    \<longrightarrow> (\<exists>ya s1 yb s2. get_object k n st = Some (Inr ya, s1)
                \<and> get_object k n s1 = Some (Inr yb, s2)
                \<and> ya \<noteq> yb
                \<and> next_id st \<le> obj_id ya \<and> obj_id ya < next_id s1
                \<and> next_id s1 \<le> obj_id yb \<and> obj_id yb < next_id s2)"
  proof (rule impI)
    assume a: "find_by_name st n = Some f \<and> f_kind f = Prototype
      \<and> creatable k st (detector_context st) n"
    from a get_object_creatable obtain ya s1 where
      g1: "get_object k n st = Some (Inr ya, s1)" by blast
    from get_object_frame [OF g1] have fr: "frame s1 = frame st" by simp
    then have "detector_context s1 = detector_context st" by (rule frame_eq_context)
    then have "creatable k s1 (detector_context s1) n"
      using a creatable_frame [OF fr] by simp
    from get_object_creatable [OF this] obtain yb s2 where
      g2: "get_object k n s1 = Some (Inr yb, s2)" by blast
    from a prototype_fresh [OF _ _ g1 g2] have
      "next_id st \<le> obj_id ya \<and> obj_id ya < next_id s1
        \<and> next_id s1 \<le> obj_id yb \<and> obj_id yb < next_id s2
        \<and> obj_id ya \<noteq> obj_id yb \<and> ya \<noteq> yb" by blast
    with g1 g2 show "\<exists>ya s1 yb s2. get_object k n st = Some (Inr ya, s1)
                \<and> get_object k n s1 = Some (Inr yb, s2)
                \<and> ya \<noteq> yb
                \<and> next_id st \<le> obj_id ya \<and> obj_id ya < next_id s1
                \<and> next_id s1 \<le> obj_id yb \<and> obj_id yb < next_id s2"
      by blast
  qed
qed

lemma example_sample_factory:
  "find_by_name example_sample ''sample_class''
    = Some ((SingletonComponentFactory ''sample_class'' SampleClass [])
              \<lparr>f_initialized := True, f_init_factories := Some []\<rparr>)"
  by code_simp

lemma example_sample_get:
  "get_component 1 (KeyStr ''sample_class'') example_sample
    = Some (Inr (PyObj 1 SampleClass []),
            modify_factory ''sample_class''
              (\<lambda>f. f\<lparr>f_kind := Singleton (Some (PyObj 1 SampleClass []))\<rparr>)
              (example_sample\<lparr>next_id := 2\<rparr>))"
  by code_simp

lemma example_prototype_factory:
  "find_by_name example_prototype ''proto''
    = Some ((PrototypeComponentFactory ''proto'' SampleClass [])
              \<lparr>f_initialized := True, f_init_factories := Some []\<rparr>)"
  by code_simp

lemma example_prototype_get1:
  "get_object 1 ''proto'' example_prototype
     = Some (Inr (PyObj 1 SampleClass []), example_prototype\<lparr>next_id := 2\<rparr>)"
  by code_simp

lemma example_prototype_get2:
  "get_object 1 ''proto'' (example_prototype\<lparr>next_id := 2\<rparr>)
     = Some (Inr (PyObj 2 SampleClass []), example_prototype\<lparr>next_id := 3\<rparr>)"
  by code_simp

lemma example_holder_singleton:
  "find_by_name example_holder ''holder''
    = Some ((SingletonComponentFactory ''holder'' class_Holder
               [Dependency (Some ''sample_class'') (PyType ''SampleClass'' [])
                  DependencyType_SIMPLE])
            \<lparr>f_initialized := True, f_init_dependencies := [''sample_class''],
              f_init_factories := Some [''sample_class'']\<rparr>)"
  by code_simp

lemma example_holder_prototype:
  "find_by_name example_holder ''proto_holder''
    = Some ((PrototypeComponentFactory ''proto_holder'' class_Holder
               [Dependency (Some ''sample_class'') (PyType ''SampleClass'' [])
                  DependencyType_SIMPLE])
            \<lparr>f_initialized := True, f_init_dependencies := [''sample_class''],
              f_init_factories := Some [''sample_class'']\<rparr>)"
  by code_simp

lemma example_holder_creatable:
  "creatable 2 example_holder (detector_context example_holder) ''holder''"
  "creatable 2 example_holder (detector_context example_holder) ''proto_holder''"
  by code_simp+

theorem C6_singleton_same_prototype_fresh_witness:
  "get_component 1 (KeyStr ''sample_class'')
      (modify_factory ''sample_class''
         (\<lambda>f. f\<lparr>f_kind := Singleton (Some (PyObj 1 SampleClass []))\<rparr>)
         (example_sample\<lparr>next_id := 2\<rparr>))
    = Some (Inr (PyObj 1 SampleClass []),
            modify_factory ''sample_class''
              (\<lambda>f. f\<lparr>f_kind := Singleton (Some (PyObj 1 SampleClass []))\<rparr>)
              (example_sample\<lparr>next_id := 2\<rparr>))
   \<and> obj_id (PyObj 1 SampleClass []) \<noteq> obj_id (PyObj 2 SampleClass [])
   \<and> next_id (example_prototype\<lparr>next_id := 2\<rparr>) \<le> obj_id (PyObj 2 SampleClass [])
   \<and> (\<exists>y s1. get_component 2 (KeyStr ''holder'') example_holder = Some (Inr y, s1)
              \<and> get_component 2 (KeyStr ''holder'') s1 = Some (Inr y, s1))
   \<and> (\<exists>ya s1 yb s2. get_object 2 ''proto_holder'' example_holder = Some (Inr ya, s1)
              \<and> get_object 2 ''proto_holder'' s1 = Some (Inr yb, s2)
              \<and> ya \<noteq> yb
              \<and> next_id example_holder \<le> obj_id ya \<and> obj_id ya < next_id s1
              \<and> next_id s1 \<le> obj_id yb \<and> obj_id yb < next_id s2)"
  using C6_singleton_same_prototype_fresh
    [where st = example_sample and n = "''sample_class''"
       and f = "(SingletonComponentFactory ''sample_class'' SampleClass [])
                  \<lparr>f_initialized := True, f_init_factories := Some []\<rparr>"
       and c = None and k = 1 and x = "PyObj 1 SampleClass []" and j = 0
       and st' = "modify_factory ''sample_class''
              (\<lambda>f. f\<lparr>f_kind := Singleton (Some (PyObj 1 SampleClass []))\<rparr>)
              (example_sample\<lparr>next_id := 2\<rparr>)"]
    C6_singleton_same_prototype_fresh
    [where st = example_prototype and n = "''proto''"
       and f = "(PrototypeComponentFactory ''proto'' SampleClass [])
                  \<lparr>f_initialized := True, f_init_factories := Some []\<rparr>"
       and k = 1 and xa = "PyObj 1 SampleClass []" and sta = "example_prototype\<lparr>next_id := 2\<rparr>"
       and j = 1 and xb = "PyObj 2 SampleClass []" and stb = "example_prototype\<lparr>next_id := 3\<rparr>"]
    C6_singleton_same_prototype_fresh
    [where st = example_holder and n = "''holder''" and c = None and k = 2
       and f = "(SingletonComponentFactory ''holder'' class_Holder
               [Dependency (Some ''sample_class'') (PyType ''SampleClass'' [])
                  DependencyType_SIMPLE])
            \<lparr>f_initialized := True, f_init_dependencies := [''sample_class''],
              f_init_factories := Some [''sample_class'']\<rparr>"]
    C6_singleton_same_prototype_fresh
    [where st = example_holder and n = "''proto_holder''" and k = 2
       and f = "(PrototypeComponentFactory ''proto_holder'' class_Holder
               [Dependency (Some ''sample_class'') (PyType ''SampleClass'' [])
                  DependencyType_SIMPLE])
            \<lparr>f_initialized := True, f_init_dependencies := [''sample_class''],
              f_init_factories := Some [''sample_class'']\<rparr>"]
    example_sample_factory example_sample_get
    example_prototype_factory example_prototype_get1 example_prototype_get2
    example_holder_singleton example_holder_prototype example_holder_creatable
  by (simp add: SingletonComponentFactory_def PrototypeComponentFactory_def)

section \<open>Lookup by type\<close>

text \<open>
  C3. The container holds one component, of class \<open>Derived\<close>, a subclass of \<open>Base\<close>:
  \<open>find_by_type\<close> finds exactly that factory for \<open>Base\<close>, and the component is there (a
  request by name returns it, and its type is a subtype of \<open>Base\<close>). Yet
  \<open>get_component(Base)\<close> raises \<open>UnknownComponentException\<close>: the quick check
  \<open>exist\<close> looks \<open>Base\<close> up among the exact types of the registered factories and stops
  the lookup before \<open>find_by_type\<close> is asked.
\<close>

theorem C3_subtype_only_is_unknown:
  "map fst (find_by_type example_derived (PyType ''Base'' [])) = [''derived'']
   \<and> get_component 2 (KeyType (PyType ''Base'' [])) example_derived
       = Some (Inl UnknownComponentException, example_derived)
   \<and> map_option fst (get_component 2 (KeyStr ''derived'') example_derived)
       = Some (Inr (PyObj 1 class_Derived []))
   \<and> issubclass (cls_type (obj_type (PyObj 1 class_Derived []))) (PyType ''Base'' [])"
  by code_simp

section \<open>Cyclic requirements\<close>

lemma get_object_cyclic:
  assumes "find_by_name st n = Some f"
    and "f_kind f = Singleton None \<or> f_kind f = Prototype"
    and "f_component_name f \<in> set (detector_context st)"
  shows "get_object (Suc k) n st =
     Some (Inl (CyclicDependencyException
                 (dropWhile (\<lambda>x. x \<noteq> f_component_name f) (detector_context st)
                    @ [f_component_name f])), st)"
  using assms by (auto simp: create_component_def push_def)

lemma get_object_first_dependency_fails:
  assumes "find_by_name st n = Some f"
    and "f_kind f = Singleton None \<or> f_kind f = Prototype"
    and "f_initialized f"
    and "f_init_factories f = Some (d # ds)"
    and "f_component_name f \<notin> set (detector_context st)"
    and "get_object k d (st\<lparr>detector_context := detector_context st @ [f_component_name f]\<rparr>)
           = Some (Inl e, st\<lparr>detector_context := detector_context st @ [f_component_name f]\<rparr>)"
  shows "get_object (Suc k) n st = Some (Inl e, st)"
  using assms by (auto simp: create_component_def push_def pop_def Let_def)

lemma find_by_name_context_update [simp]:
  "find_by_name (st\<lparr>detector_context := c\<rparr>) n = find_by_name st n"
  by (simp add: find_by_name_def)

text \<open>
  C1, as the code has it. Three components \<open>x\<close>, \<open>y\<close>, \<open>z\<close>, wired and not yet
  created, where the first requirement of \<open>x\<close> is \<open>y\<close>, of \<open>y\<close> is \<open>z\<close> and of \<open>z\<close> is
  \<open>x\<close>: requesting \<open>x\<close> from the top level fails with \<open>CyclicDependencyException\<close>, the
  reported cycle is \<open>[x, y, z, x]\<close>, and the state is left as it was. The reported cycle
  starts and ends at the component that was requested: for the cycle A, B, C it is
  \<open>[A, B, C, A]\<close> when A is requested, \<open>[B, C, A, B]\<close> when B is and \<open>[C, A, B, C]\<close> when
  C is.
\<close>

theorem C1_cycle_reported_from_requested:
  assumes fx: "find_by_name st x = Some fx" and fy: "find_by_name st y = Some fy"
    and fz: "find_by_name st z = Some fz"
    and nx: "f_component_name fx = x" and ny: "f_component_name fy = y"
    and nz: "f_component_name fz = z"
    and kx: "f_kind fx = Singleton None \<or> f_kind fx = Prototype"
    and ky: "f_kind fy = Singleton None \<or> f_kind fy = Prototype"
    and kz: "f_kind fz = Singleton None \<or> f_kind fz = Prototype"
    and ix: "f_initialized fx" and iy: "f_initialized fy" and iz: "f_initialized fz"
    and dx: "f_init_factories fx = Some (y # rx)" and dy: "f_init_factories fy = Some (z # ry)"
    and dz: "f_init_factories fz = Some (x # rz)"
    and ne: "x \<noteq> y" "y \<noteq> z" "z \<noteq> x"
    and top: "detector_context st = []"
  shows "get_component (Suc (Suc (Suc (Suc k)))) (KeyStr x) st
           = Some (Inl (CyclicDependencyException [x, y, z, x]), st)"
proof -
  let ?e = "CyclicDependencyException [x, y, z, x]"
  let ?s1 = "st\<lparr>detector_context := [x]\<rparr>"
  let ?s2 = "st\<lparr>detector_context := [x, y]\<rparr>"
  let ?s3 = "st\<lparr>detector_context := [x, y, z]\<rparr>"
  have "get_object (Suc k) x ?s3
          = Some (Inl (CyclicDependencyException
                        (dropWhile (\<lambda>a. a \<noteq> f_component_name fx) (detector_context ?s3)
                           @ [f_component_name fx])), ?s3)"
  proof (rule get_object_cyclic)
    show "find_by_name ?s3 x = Some fx" using fx by simp
    show "f_kind fx = Singleton None \<or> f_kind fx = Prototype" by (rule kx)
    show "f_component_name fx \<in> set (detector_context ?s3)" using nx by simp
  qed
  then have g3: "get_object (Suc k) x ?s3 = Some (Inl ?e, ?s3)"
    using nx by simp
  have g2: "get_object (Suc (Suc k)) z ?s2 = Some (Inl ?e, ?s2)"
  proof (rule get_object_first_dependency_fails)
    show "find_by_name ?s2 z = Some fz" using fz by simp
    show "f_kind fz = Singleton None \<or> f_kind fz = Prototype" by (rule kz)
    show "f_initialized fz" by (rule iz)
    show "f_init_factories fz = Some (x # rz)" by (rule dz)
    show "f_component_name fz \<notin> set (detector_context ?s2)" using nz ne by auto
    show "get_object (Suc k) x
            (?s2\<lparr>detector_context := detector_context ?s2 @ [f_component_name fz]\<rparr>)
          = Some (Inl ?e, ?s2\<lparr>detector_context := detector_context ?s2 @ [f_component_name fz]\<rparr>)"
      using g3 nz by simp
  qed
  have g1: "get_object (Suc (Suc (Suc k))) y ?s1 = Some (Inl ?e, ?s1)"
  proof (rule get_object_first_dependency_fails)
    show "find_by_name ?s1 y = Some fy" using fy by simp
    show "f_kind fy = Singleton None \<or> f_kind fy = Prototype" by (rule ky)
    show "f_initialized fy" by (rule iy)
    show "f_init_factories fy = Some (z # ry)" by (rule dy)
    show "f_component_name fy \<notin> set (detector_context ?s1)" using ny ne by auto
    show "get_object (Suc (Suc k)) z
            (?s1\<lparr>detector_context := detector_context ?s1 @ [f_component_name fy]\<rparr>)
          = Some (Inl ?e, ?s1\<lparr>detector_context := detector_context ?s1 @ [f_component_name fy]\<rparr>)"
      using g2 ny by simp
  qed
  have g0: "get_object (Suc (Suc (Suc (Suc k)))) x st = Some (Inl ?e, st)"
  proof (rule get_object_first_dependency_fails)
    show "find_by_name st x = Some fx" by (rule fx)
    show "f_kind fx = Singleton None \<or> f_kind fx = Prototype" by (rule kx)
    show "f_initialized fx" by (rule ix)
    show "f_init_factories fx = Some (y # rx)" by (rule dx)
    show "f_component_name fx \<notin> set (detector_context st)" using top by simp
    show "get_object (Suc (Suc (Suc k))) y
            (st\<lparr>detector_context := detector_context st @ [f_component_name fx]\<rparr>)
          = Some (Inl ?e, st\<lparr>detector_context := detector_context st @ [f_component_name fx]\<rparr>)"
      using g1 nx top by simp
  qed
  then show ?thesis using fx by (simp add: get_component_def)
qed

lemma example_cyclic_a:
  "find_by_name example_cyclic ''a''
    = Some ((SingletonComponentFactory ''a'' class_A
               [Dependency (Some ''b'') object_type DependencyType_SIMPLE])
            \<lparr>f_initialized := True, f_init_dependencies := [''b''],
              f_init_factories := Some [''b'']\<rparr>)"
  by code_simp

lemma example_cyclic_b:
  "find_by_name example_cyclic ''b''
    = Some ((SingletonComponentFactory ''b'' class_B
               [Dependency (Some ''c'') object_type DependencyType_SIMPLE])
            \<lparr>f_initialized := True, f_init_dependencies := [''c''],
              f_init_factories := Some [''c'']\<rparr>)"
  by code_simp

lemma example_cyclic_c:
  "find_by_name example_cyclic ''c''
    = Some ((SingletonComponentFactory ''c'' class_C
               [Dependency (Some ''a'') object_type DependencyType_SIMPLE])
            \<lparr>f_initialized := True, f_init_dependencies := [''a''],
              f_init_factories := Some [''a'']\<rparr>)"
  by code_simp

theorem C1_cycle_reported_from_requested_witness:
  "get_component (Suc (Suc (Suc (Suc 0)))) (KeyStr ''c'') example_cyclic
     = Some (Inl (CyclicDependencyException [''c'', ''a'', ''b'', ''c'']), example_cyclic)"
  by (rule C1_cycle_reported_from_requested
        [OF example_cyclic_c example_cyclic_a example_cyclic_b])
     (simp_all add: SingletonComponentFactory_def example_cyclic_context)

text \<open>
  The claim as the specification words it fails: requested first, \<open>b\<close> reports
  \<open>[b, c, a, b]\<close>.
\<close>

theorem C1_requested_second_counterexample:
  "\<not> (\<forall>n \<in> {''a'', ''b'', ''c''}.
        \<exists>s. get_component 4 (KeyStr n) example_cyclic
              = Some (Inl (CyclicDependencyException [''a'', ''b'', ''c'', ''a'']), s))"
proof -
  have "get_component 4 (KeyStr ''b'') example_cyclic
          = Some (Inl (CyclicDependencyException [''b'', ''c'', ''a'', ''b'']), example_cyclic)"
    by code_simp
  then show ?thesis by simp
qed

section \<open>Wiring\<close>

lemma is_type_of_keeps: "keeps_type g \<Longrightarrow> is_type_of (g f) ty = is_type_of f ty"
  by (simp add: keeps_type_def is_type_of_def)

lemma filter_map_entry_keys:
  "(\<And>v. Q (g v) = Q v) \<Longrightarrow>
   map fst (filter (\<lambda>fp. Q (snd fp)) (AList.map_entry n g xs))
     = map fst (filter (\<lambda>fp. Q (snd fp)) xs)"
  by (induction xs) auto

lemma find_by_type_modify_factory:
  "keeps_type g \<Longrightarrow>
   map fst (find_by_type (modify_factory n g st) ty) = map fst (find_by_type st ty)"
  unfolding find_by_type_def modify_factory_def
  using filter_map_entry_keys [where Q = "\<lambda>f. is_type_of f ty" and g = g]
  by (simp add: is_type_of_keeps)

lemma post_init_step_keys:
  "post_init_step st req =
     (case (case component_name req of
              None \<Rightarrow> Inr None
            | Some rn \<Rightarrow>
                (case find_by_name st rn of
                   None \<Rightarrow> Inr None
                 | Some f \<Rightarrow>
                     if \<not> is_type_of f (component_type req) then Inl TypeMismatchException
                     else Inr (Some (rn, rn)))) of
        Inl e \<Rightarrow> Inl e
      | Inr (Some r) \<Rightarrow> Inr r
      | Inr None \<Rightarrow>
          (case map fst (find_by_type st (component_type req)) of
             [] \<Rightarrow> Inl UnknownComponentException
           | [k] \<Rightarrow> Inr (k, k)
           | _ # _ # _ \<Rightarrow> Inl TooManyDefinitionsException))"
  unfolding post_init_step_def
  by (auto split: option.splits sum.splits list.splits)

lemma post_init_step_modify_factory:
  assumes "keeps_type g"
  shows "post_init_step (modify_factory n g st) req = post_init_step st req"
proof -
  have "\<And>rn. (case find_by_name (modify_factory n g st) rn of
                None \<Rightarrow> Inr None
              | Some f \<Rightarrow> if \<not> is_type_of f (component_type req) then Inl TypeMismatchException
                          else Inr (Some (rn, rn)))
           = (case find_by_name st rn of
                None \<Rightarrow> Inr None
              | Some f \<Rightarrow> if \<not> is_type_of f (component_type req) then Inl TypeMismatchException
                          else Inr (Some (rn, rn)))"
    using assms
    by (auto simp: find_by_name_modify_factory is_type_of_keeps split: option.splits)
  then show ?thesis
    unfolding post_init_step_keys find_by_type_modify_factory [OF assms]
    by (simp cong: option.case_cong)
qed

lemma keeps_type_append:
  "keeps_type (\<lambda>f. f\<lparr>f_init_factories := a f, f_init_dependencies := b f\<rparr>)"
  by (simp add: keeps_type_def)

lemma wired_Nil: "wired st [] f = f"
  by (cases "f_init_factories f") (simp_all add: wired_def)

lemma wired_Cons:
  "post_init_step st r = Inr (name, fac) \<Longrightarrow>
   wired st rs (f\<lparr>f_init_factories := map_option (\<lambda>fs. fs @ [fac]) (f_init_factories f),
                  f_init_dependencies := f_init_dependencies f @ [name]\<rparr>)
     = wired st (r # rs) f"
  by (cases "f_init_factories f") (simp_all add: wired_def)

lemma post_init_loop_resolves:
  "list_all (\<lambda>r. \<not> isl (post_init_step st r)) reqs \<Longrightarrow>
   \<exists>st'. post_init_loop n reqs st = (Inr (), st')
      \<and> (\<forall>r. post_init_step st' r = post_init_step st r)
      \<and> find_by_name st' n = map_option (wired st reqs) (find_by_name st n)"
proof (induction reqs arbitrary: st)
  case Nil
  show ?case by (simp add: wired_Nil option.map_ident cong: option.map_cong)
next
  case (Cons r rs)
  from Cons.prems obtain name fac where r: "post_init_step st r = Inr (name, fac)"
    by (cases "post_init_step st r") auto
  let ?g = "\<lambda>f. f\<lparr>f_init_factories := map_option (\<lambda>fs. fs @ [fac]) (f_init_factories f),
                    f_init_dependencies := f_init_dependencies f @ [name]\<rparr>"
  let ?st1 = "modify_factory n ?g st"
  have k: "keeps_type ?g" by (rule keeps_type_append)
  have inv: "\<And>q. post_init_step ?st1 q = post_init_step st q"
    by (rule post_init_step_modify_factory [OF k])
  have "list_all (\<lambda>r. \<not> isl (post_init_step ?st1 r)) rs"
    using Cons.prems by (simp add: inv)
  from Cons.IH [OF this] obtain st' where
    l: "post_init_loop n rs ?st1 = (Inr (), st')" and
    i: "\<forall>q. post_init_step st' q = post_init_step ?st1 q" and
    f: "find_by_name st' n = map_option (wired ?st1 rs) (find_by_name ?st1 n)"
    by blast
  have w: "wired ?st1 rs = wired st rs" by (simp add: wired_def inv fun_eq_iff)
  have "find_by_name st' n = map_option (wired st (r # rs)) (find_by_name st n)"
    unfolding f w find_by_name_modify_factory
    by (cases "find_by_name st n") (simp_all add: wired_Cons [OF r])
  then show ?case using r l i inv by simp
qed

lemma post_init_loop_fails:
  "list_all (\<lambda>r. \<not> isl (post_init_step st r)) pre \<Longrightarrow> post_init_step st r = Inl e \<Longrightarrow>
   \<exists>st'. post_init_loop n (pre @ r # post) st = (Inl e, st')
      \<and> find_by_name st' n = map_option (wired st pre) (find_by_name st n)"
proof (induction pre arbitrary: st)
  case Nil
  then show ?case by (simp add: wired_Nil option.map_ident cong: option.map_cong)
next
  case (Cons p ps)
  from Cons.prems obtain name fac where p: "post_init_step st p = Inr (name, fac)"
    by (cases "post_init_step st p") auto
  let ?g = "\<lambda>f. f\<lparr>f_init_factories := map_option (\<lambda>fs. fs @ [fac]) (f_init_factories f),
                    f_init_dependencies := f_init_dependencies f @ [name]\<rparr>"
  let ?st1 = "modify_factory n ?g st"
  have k: "keeps_type ?g" by (rule keeps_type_append)
  have inv: "\<And>q. post_init_step ?st1 q = post_init_step st q"
    by (rule post_init_step_modify_factory [OF k])
  have "list_all (\<lambda>r. \<not> isl (post_init_step ?st1 r)) ps" "post_init_step ?st1 r = Inl e"
    using Cons.prems by (simp_all add: inv)
  from Cons.IH [OF this] obtain st' where
    l: "post_init_loop n (ps @ r # post) ?st1 = (Inl e, st')" and
    f: "find_by_name st' n = map_option (wired ?st1 ps) (find_by_name ?st1 n)"
    by blast
  have w: "wired ?st1 ps = wired st ps" by (simp add: wired_def inv fun_eq_iff)
  have "find_by_name st' n = map_option (wired st (p # ps)) (find_by_name st n)"
    unfolding f w find_by_name_modify_factory
    by (cases "find_by_name st n") (simp_all add: wired_Cons [OF p])
  then show ?case using p l by simp
qed

lemma post_init_creating:
  assumes f: "find_by_name st self = Some f"
    and k: "f_kind f = Singleton c \<or> f_kind f = Prototype"
  shows "post_init self st =
     (case post_init_loop self (f_requirements f)
             (modify_factory self (\<lambda>f. f\<lparr>f_init_factories := Some []\<rparr>) st) of
        (Inl e, st') \<Rightarrow> (Inl e, st')
      | (Inr _, st') \<Rightarrow> (Inr (), modify_factory self (\<lambda>f. f\<lparr>f_initialized := True\<rparr>) st'))"
  using f k by (auto simp: post_init_def)

text \<open>
  C2. Wiring one requirement: when it has a name and a factory is registered under that
  name, the requirement resolves to that factory if the factory's type is the declared
  type or a subtype of it, and fails with \<open>TypeMismatchException\<close> otherwise. When it
  has no name, or no factory is registered under its name, the factories of the declared
  type are looked up: none fails with \<open>UnknownComponentException\<close>, more than one with
  \<open>TooManyDefinitionsException\<close>, exactly one is the factory it resolves to.
  Wiring a creating factory (\<open>post_init\<close>): when every requirement resolves, the call
  succeeds and the factory is initialized, holding the resolved factories in the order
  of the requirements; when a requirement fails after others have resolved, the call
  fails with that requirement's exception and the factory is as ready as it was.
\<close>

theorem C2_wiring:
  "(component_name req = Some rn \<and> find_by_name st rn = Some g \<longrightarrow>
      post_init_step st req =
        (if is_type_of g (component_type req) then Inr (rn, rn) else Inl TypeMismatchException))
   \<and> (component_name req = None \<or> (component_name req = Some rn \<and> find_by_name st rn = None) \<longrightarrow>
        (length (find_by_type st (component_type req)) = 0 \<longrightarrow>
           post_init_step st req = Inl UnknownComponentException)
      \<and> (length (find_by_type st (component_type req)) > 1 \<longrightarrow>
           post_init_step st req = Inl TooManyDefinitionsException)
      \<and> (find_by_type st (component_type req) = [fp] \<longrightarrow>
           post_init_step st req = Inr (fst fp, fst fp)))
   \<and> (find_by_name st self = Some f \<and> (f_kind f = Singleton c \<or> f_kind f = Prototype)
        \<and> list_all (\<lambda>r. \<not> isl (post_init_step st r)) (f_requirements f) \<longrightarrow>
        fst (post_init self st) = Inr ()
      \<and> find_by_name (snd (post_init self st)) self =
          Some (f\<lparr>f_init_factories :=
                     Some (map (\<lambda>r. snd (projr (post_init_step st r))) (f_requirements f)),
                  f_init_dependencies :=
                     f_init_dependencies f
                       @ map (\<lambda>r. fst (projr (post_init_step st r))) (f_requirements f),
                  f_initialized := True\<rparr>))
   \<and> (find_by_name st self = Some f \<and> (f_kind f = Singleton c \<or> f_kind f = Prototype)
        \<and> f_requirements f = pre @ r # post
        \<and> list_all (\<lambda>r. \<not> isl (post_init_step st r)) pre \<and> post_init_step st r = Inl e \<longrightarrow>
        fst (post_init self st) = Inl e
      \<and> (\<exists>f'. find_by_name (snd (post_init self st)) self = Some f'
               \<and> f_initialized f' = f_initialized f))"
proof (intro conjI impI)
  assume "component_name req = Some rn \<and> find_by_name st rn = Some g"
  then show "post_init_step st req =
        (if is_type_of g (component_type req) then Inr (rn, rn) else Inl TypeMismatchException)"
    by (simp add: post_init_step_def)
next
  assume a: "component_name req = None \<or> (component_name req = Some rn \<and> find_by_name st rn = None)"
  {
    assume "length (find_by_type st (component_type req)) = 0"
    with a show "post_init_step st req = Inl UnknownComponentException"
      by (auto simp: post_init_step_def)
  next
    assume "length (find_by_type st (component_type req)) > 1"
    with a show "post_init_step st req = Inl TooManyDefinitionsException"
      by (auto simp: post_init_step_def split: list.splits)
  next
    assume "find_by_type st (component_type req) = [fp]"
    with a show "post_init_step st req = Inr (fst fp, fst fp)"
      by (auto simp: post_init_step_def)
  }
next
  let ?st0 = "modify_factory self (\<lambda>f. f\<lparr>f_init_factories := Some []\<rparr>) st"
  have inv: "\<And>q. post_init_step ?st0 q = post_init_step st q"
    by (rule post_init_step_modify_factory) (simp add: keeps_type_def)
  {
    assume a: "find_by_name st self = Some f \<and> (f_kind f = Singleton c \<or> f_kind f = Prototype)
        \<and> list_all (\<lambda>r. \<not> isl (post_init_step st r)) (f_requirements f)"
    then have "list_all (\<lambda>r. \<not> isl (post_init_step ?st0 r)) (f_requirements f)"
      by (simp add: inv)
    from post_init_loop_resolves [OF this, of self] obtain st' where
      l: "post_init_loop self (f_requirements f) ?st0 = (Inr (), st')" and
      w: "find_by_name st' self
            = map_option (wired ?st0 (f_requirements f)) (find_by_name ?st0 self)"
      by blast
    have p: "post_init self st
               = (Inr (), modify_factory self (\<lambda>f. f\<lparr>f_initialized := True\<rparr>) st')"
      using a l by (simp add: post_init_creating [where c = c])
    have "wired ?st0 (f_requirements f) = wired st (f_requirements f)"
      by (simp add: wired_def inv fun_eq_iff)
    then have "find_by_name st' self
            = Some (wired st (f_requirements f) (f\<lparr>f_init_factories := Some []\<rparr>))"
      using a w by (simp add: find_by_name_modify_factory)
    then show "fst (post_init self st) = Inr ()"
      and "find_by_name (snd (post_init self st)) self =
          Some (f\<lparr>f_init_factories :=
                     Some (map (\<lambda>r. snd (projr (post_init_step st r))) (f_requirements f)),
                  f_init_dependencies :=
                     f_init_dependencies f
                       @ map (\<lambda>r. fst (projr (post_init_step st r))) (f_requirements f),
                  f_initialized := True\<rparr>)"
      unfolding p by (simp_all add: find_by_name_modify_factory wired_def)
  next
    assume a: "find_by_name st self = Some f \<and> (f_kind f = Singleton c \<or> f_kind f = Prototype)
        \<and> f_requirements f = pre @ r # post
        \<and> list_all (\<lambda>r. \<not> isl (post_init_step st r)) pre \<and> post_init_step st r = Inl e"
    then have "list_all (\<lambda>r. \<not> isl (post_init_step ?st0 r)) pre" "post_init_step ?st0 r = Inl e"
      by (simp_all add: inv)
    from post_init_loop_fails [OF this, of self post] obtain st' where
      l: "post_init_loop self (pre @ r # post) ?st0 = (Inl e, st')" and
      w: "find_by_name st' self = map_option (wired ?st0 pre) (find_by_name ?st0 self)"
      by blast
    have p: "post_init self st = (Inl e, st')"
      using a l by (simp add: post_init_creating [where c = c])
    have "find_by_name st' self = Some (wired ?st0 pre (f\<lparr>f_init_factories := Some []\<rparr>))"
      using a w by (simp add: find_by_name_modify_factory)
    then show "fst (post_init self st) = Inl e"
      and "\<exists>f'. find_by_name (snd (post_init self st)) self = Some f'
               \<and> f_initialized f' = f_initialized f"
      unfolding p by (simp_all add: wired_def)
  }
qed

lemma example_clash_c:
  "find_by_name example_clash ''c'' = Some (StaticComponentFactory ''c'' example_message)"
  by code_simp

lemma example_clash_type:
  "\<not> is_type_of (StaticComponentFactory ''c'' example_message) (PyType ''Container'' [])"
  by code_simp

theorem C2_wiring_witness:
  "post_init_step example_clash
     (Dependency (Some ''c'') (PyType ''Container'' []) DependencyType_SIMPLE)
   = Inl TypeMismatchException"
  using C2_wiring
    [where req = "Dependency (Some ''c'') (PyType ''Container'' []) DependencyType_SIMPLE"
       and rn = "''c''" and st = example_clash
       and g = "StaticComponentFactory ''c'' example_message"]
    example_clash_c example_clash_type
  by (simp add: Dependency_def)

section \<open>The container as a component\<close>

lemma has_container_frame:
  assumes "frame s' = frame s" and "has_container s c"
  shows "has_container s' c"
proof -
  from assms(2) obtain f where f: "find_by_name s CONTAINER_COMPONENT_NAME = Some f"
    and k: "f_kind f = Static c" by (auto simp: has_container_def split: option.splits)
  from find_by_name_frame_eq [OF assms(1) f] obtain f1 where
    f1: "find_by_name s' CONTAINER_COMPONENT_NAME = Some f1"
    and e: "erase_factory f1 = erase_factory f" by blast
  from e k have "f_kind f1 = Static c"
    by (cases "f_kind f1") (auto simp: erase_factory_def dest: arg_cong [where f = f_kind])
  with f1 show ?thesis by (auto simp: has_container_def)
qed

lemma has_container_context [simp]:
  "has_container (st\<lparr>detector_context := d\<rparr>) c = has_container st c"
  by (simp add: has_container_def)

lemma get_object_container:
  "has_container s c \<Longrightarrow> get_object k CONTAINER_COMPONENT_NAME s = Some (r, s') \<Longrightarrow>
   r = Inr c \<and> s' = s"
  by (cases k) (auto simp: has_container_def split: option.splits)

lemma get_objects_container:
  "has_container s c \<Longrightarrow> get_objects (get_object k) fs s = Some (Inr xs, s') \<Longrightarrow>
   length xs = length fs \<and> (\<forall>i < length fs. fs ! i = CONTAINER_COMPONENT_NAME \<longrightarrow> xs ! i = c)"
proof (induction fs arbitrary: s xs)
  case Nil
  then show ?case by simp
next
  case (Cons d ds)
  from Cons.prems(2) obtain x s1 ys where
    g1: "get_object k d s = Some (Inr x, s1)" and
    g2: "get_objects (get_object k) ds s1 = Some (Inr ys, s')" and
    xs: "xs = x # ys"
    by (auto split: option.splits sum.splits prod.splits)
  from get_object_frame [OF g1] have "frame s1 = frame s" by simp
  then have h1: "has_container s1 c" using Cons.prems(1) by (rule has_container_frame)
  from Cons.IH [OF h1 g2] have
    ih: "length ys = length ds"
        "\<forall>i < length ds. ds ! i = CONTAINER_COMPONENT_NAME \<longrightarrow> ys ! i = c" by auto
  have hd: "d = CONTAINER_COMPONENT_NAME \<longrightarrow> x = c"
    using get_object_container [OF Cons.prems(1)] g1 by auto
  show ?case
    unfolding xs using ih hd by (auto simp: nth_Cons split: nat.splits)
qed

lemma create_component_args:
  assumes "create_component g self st = Some (Inr x, st')"
  shows "\<exists>fs s2. f_init_factories self = Some fs
           \<and> get_objects g fs
                (st\<lparr>detector_context := detector_context st @ [f_component_name self]\<rparr>)
               = Some (Inr (obj_args x), s2)
           \<and> obj_type x = f_component_type self"
  using assms
  by (auto simp: create_component_def push_def construct_def
           split: if_splits option.splits sum.splits prod.splits)


lemma get_objects_only_container:
  "has_container s c \<Longrightarrow> set fs \<subseteq> {CONTAINER_COMPONENT_NAME} \<Longrightarrow>
   get_objects (get_object (Suc k)) fs s = Some (Inr (replicate (length fs) c), s)"
  by (induction fs) (auto simp: has_container_def split: option.splits)

lemma static_has_container:
  "find_by_name st CONTAINER_COMPONENT_NAME
     = Some (StaticComponentFactory CONTAINER_COMPONENT_NAME c) \<Longrightarrow> has_container st c"
  by (simp add: has_container_def StaticComponentFactory_def)

lemma create_component_only_container:
  assumes h: "has_container st c"
    and i: "f_initialized f" and fs: "f_init_factories f = Some fs"
    and only: "set fs \<subseteq> {CONTAINER_COMPONENT_NAME}"
    and fresh: "f_component_name f \<notin> set (detector_context st)"
    and ok: "\<not> cls_init_raises (f_component_type f)"
  shows "create_component (get_object (Suc k)) f st
           = Some (Inr (PyObj (next_id st) (f_component_type f) (replicate (length fs) c)),
                   st\<lparr>next_id := Suc (next_id st)\<rparr>)"
proof -
  let ?s1 = "st\<lparr>detector_context := detector_context st @ [f_component_name f]\<rparr>"
  have h1: "has_container ?s1 c" using h by simp
  have g: "get_objects (get_object (Suc k)) fs ?s1 = Some (Inr (replicate (length fs) c), ?s1)"
    using h1 only by (rule get_objects_only_container)
  show ?thesis
    using i fs fresh ok g
    by (simp add: create_component_def push_def construct_def pop_def Let_def)
qed

lemma post_init_loop_wiring:
  "post_init_loop self reqs s = (res, s') \<Longrightarrow>
   (\<forall>q. post_init_step s' q = post_init_step s q)
   \<and> (\<forall>m. m \<noteq> self \<longrightarrow> find_by_name s' m = find_by_name s m)"
proof (induction reqs arbitrary: s)
  case Nil
  then show ?case by simp
next
  case (Cons req reqs)
  show ?case
  proof (cases "post_init_step s req")
    case (Inl e)
    with Cons.prems show ?thesis by simp
  next
    case (Inr p)
    obtain name fac where p: "p = (name, fac)" by (cases p)
    let ?g = "\<lambda>f. f\<lparr>f_init_factories := map_option (\<lambda>fs. fs @ [fac]) (f_init_factories f),
                      f_init_dependencies := f_init_dependencies f @ [name]\<rparr>"
    have kt: "keeps_type ?g" by (simp add: keeps_type_def)
    from Cons.prems Inr p have "post_init_loop self reqs (modify_factory self ?g s) = (res, s')"
      by simp
    from Cons.IH [OF this] show ?thesis
      by (simp add: post_init_step_modify_factory [OF kt] find_by_name_modify_factory)
  qed
qed

lemma post_init_wiring:
  assumes "post_init self s = (res, s')"
  shows "(\<forall>q. post_init_step s' q = post_init_step s q)
   \<and> (\<forall>m. m \<noteq> self \<longrightarrow> find_by_name s' m = find_by_name s m)"
proof (cases "find_by_name s self")
  case None
  with assms show ?thesis by (simp add: post_init_def)
next
  case (Some f)
  show ?thesis
  proof (cases "\<exists>i. f_kind f = Static i")
    case True
    with assms Some show ?thesis by (auto simp: post_init_def)
  next
    case False
    then have k: "f_kind f = Singleton (case f_kind f of Singleton c \<Rightarrow> c | _ \<Rightarrow> None)
                  \<or> f_kind f = Prototype"
      by (cases "f_kind f") auto
    let ?s0 = "modify_factory self (\<lambda>f. f\<lparr>f_init_factories := Some []\<rparr>) s"
    obtain r1 s1 where l: "post_init_loop self (f_requirements f) ?s0 = (r1, s1)"
      by (cases "post_init_loop self (f_requirements f) ?s0")
    have k0: "keeps_type (\<lambda>f. f\<lparr>f_init_factories := Some []\<rparr>)" by (simp add: keeps_type_def)
    have k1: "keeps_type (\<lambda>f. f\<lparr>f_initialized := True\<rparr>)" by (simp add: keeps_type_def)
    from post_init_loop_wiring [OF l] have
      w: "(\<forall>q. post_init_step s1 q = post_init_step s q)
          \<and> (\<forall>m. m \<noteq> self \<longrightarrow> find_by_name s1 m = find_by_name s m)"
      by (simp add: post_init_step_modify_factory [OF k0] find_by_name_modify_factory)
    from assms l have "s' = s1 \<or> s' = modify_factory self (\<lambda>f. f\<lparr>f_initialized := True\<rparr>) s1"
      unfolding post_init_creating [OF Some k] by (cases r1) auto
    then show ?thesis
      using w by (auto simp: post_init_step_modify_factory [OF k1] find_by_name_modify_factory)
  qed
qed

lemma post_init_loop_unresolved:
  "r \<in> set reqs \<Longrightarrow> isl (post_init_step s r) \<Longrightarrow> isl (fst (post_init_loop self reqs s))"
proof (induction reqs arbitrary: s)
  case Nil
  then show ?case by simp
next
  case (Cons req reqs)
  show ?case
  proof (cases "post_init_step s req")
    case (Inl e)
    then show ?thesis by simp
  next
    case (Inr p)
    obtain name fac where p: "p = (name, fac)" by (cases p)
    let ?g = "\<lambda>f. f\<lparr>f_init_factories := map_option (\<lambda>fs. fs @ [fac]) (f_init_factories f),
                      f_init_dependencies := f_init_dependencies f @ [name]\<rparr>"
    have kt: "keeps_type ?g" by (simp add: keeps_type_def)
    from Cons.prems Inr have "r \<in> set reqs" by auto
    moreover have "isl (post_init_step (modify_factory self ?g s) r)"
      using Cons.prems by (simp add: post_init_step_modify_factory [OF kt])
    ultimately have "isl (fst (post_init_loop self reqs (modify_factory self ?g s)))"
      by (rule Cons.IH)
    then show ?thesis using Inr p by simp
  qed
qed

lemma post_init_unresolved:
  assumes f: "find_by_name s self = Some f"
    and k: "f_kind f = Singleton c \<or> f_kind f = Prototype"
    and r: "r \<in> set (f_requirements f)" and e: "isl (post_init_step s r)"
  shows "isl (fst (post_init self s))"
proof -
  let ?s0 = "modify_factory self (\<lambda>f. f\<lparr>f_init_factories := Some []\<rparr>) s"
  have k0: "keeps_type (\<lambda>f. f\<lparr>f_init_factories := Some []\<rparr>)" by (simp add: keeps_type_def)
  have "isl (post_init_step ?s0 r)" using e by (simp add: post_init_step_modify_factory [OF k0])
  with r have "isl (fst (post_init_loop self (f_requirements f) ?s0))"
    by (rule post_init_loop_unresolved)
  then show ?thesis
    unfolding post_init_creating [OF f k]
    by (cases "post_init_loop self (f_requirements f) ?s0") (auto split: sum.splits)
qed

lemma setup_loop_unresolved:
  assumes k: "f_kind f = Singleton c \<or> f_kind f = Prototype"
    and r: "r \<in> set (f_requirements f)"
  shows "self \<in> set ns \<Longrightarrow> find_by_name s self = Some f \<Longrightarrow> isl (post_init_step s r) \<Longrightarrow>
         isl (fst (setup_loop ns s))"
proof (induction ns arbitrary: s)
  case Nil
  then show ?case by simp
next
  case (Cons m ms)
  obtain res s' where p: "post_init m s = (res, s')" by (cases "post_init m s")
  show ?case
  proof (cases res)
    case (Inl e)
    with p show ?thesis by simp
  next
    case (Inr u)
    have ne: "m \<noteq> self"
    proof
      assume "m = self"
      with post_init_unresolved [OF Cons.prems(2) k r Cons.prems(3)] p Inr show False by simp
    qed
    from post_init_wiring [OF p] ne have
      "find_by_name s' self = find_by_name s self" "post_init_step s' r = post_init_step s r"
      by auto
    with Cons.prems ne have "isl (fst (setup_loop ms s'))"
      by (intro Cons.IH) auto
    then show ?thesis using p Inr by simp
  qed
qed

text \<open>
  C8. \<open>Container.__init__\<close> registers the container under the name \<open>container\<close>, as a
  static factory holding the container itself. In any state where that registration
  stands: a requirement named \<open>container\<close> whose declared type is the container's type
  or a supertype of it resolves to the container's factory; so does a requirement with
  no name, or with a name bound to no factory, when the container's factory is the only
  one of its declared type; and a requirement resolves to the container's factory in
  these two cases only. \<open>get_component\<close> of the name returns the container itself;
  a component whose resolved factories are all the container's factory is created, with
  the container itself as every argument; and whenever \<open>get_component\<close> creates a
  component, each argument whose resolved factory is the container's is the container
  itself. A requirement whose name is bound to a factory that is not of the declared
  type fails with \<open>TypeMismatchException\<close>, whatever the declared type is, and
  \<open>setup\<close> fails when a registered creating factory has such a requirement.
\<close>

theorem C8_container_injected:
  "find_by_name Container_init CONTAINER_COMPONENT_NAME
     = Some (StaticComponentFactory CONTAINER_COMPONENT_NAME Container_self)
   \<and> (find_by_name st CONTAINER_COMPONENT_NAME
         = Some (StaticComponentFactory CONTAINER_COMPONENT_NAME c) \<longrightarrow>
        (component_name req = Some CONTAINER_COMPONENT_NAME
           \<and> issubclass (cls_type (obj_type c)) (component_type req) \<longrightarrow>
           post_init_step st req = Inr (CONTAINER_COMPONENT_NAME, CONTAINER_COMPONENT_NAME))
      \<and> ((component_name req = None
             \<or> (component_name req = Some rn \<and> find_by_name st rn = None))
           \<and> map fst (find_by_type st (component_type req)) = [CONTAINER_COMPONENT_NAME] \<longrightarrow>
           post_init_step st req = Inr (CONTAINER_COMPONENT_NAME, CONTAINER_COMPONENT_NAME))
      \<and> get_component (Suc k) (KeyStr CONTAINER_COMPONENT_NAME) st = Some (Inr c, st)
      \<and> (find_by_name st n = Some f \<and> (f_kind f = Singleton None \<or> f_kind f = Prototype)
           \<and> f_initialized f \<and> f_init_factories f = Some fs
           \<and> set fs \<subseteq> {CONTAINER_COMPONENT_NAME}
           \<and> f_component_name f \<notin> set (detector_context st)
           \<and> \<not> cls_init_raises (f_component_type f) \<longrightarrow>
           map_option fst (get_component (Suc (Suc k)) (KeyStr n) st)
             = Some (Inr (PyObj (next_id st) (f_component_type f) (replicate (length fs) c))))
      \<and> (find_by_name st n = Some f \<and> (f_kind f = Singleton None \<or> f_kind f = Prototype)
           \<and> get_component k (KeyStr n) st = Some (Inr x, st') \<longrightarrow>
           (\<exists>fs. f_init_factories f = Some fs \<and> length (obj_args x) = length fs
                 \<and> (\<forall>i < length fs. fs ! i = CONTAINER_COMPONENT_NAME \<longrightarrow> obj_args x ! i = c)))
      \<and> (post_init_step st req = Inr (a, CONTAINER_COMPONENT_NAME) \<longrightarrow>
           (component_name req = Some CONTAINER_COMPONENT_NAME
              \<and> issubclass (cls_type (obj_type c)) (component_type req))
           \<or> ((component_name req = None
                 \<or> (\<exists>rn. component_name req = Some rn \<and> find_by_name st rn = None))
               \<and> map fst (find_by_type st (component_type req)) = [CONTAINER_COMPONENT_NAME]))
      \<and> (component_name req = Some rn \<and> find_by_name st rn = Some g
           \<and> \<not> is_type_of g (component_type req) \<longrightarrow>
           post_init_step st req = Inl TypeMismatchException
           \<and> (find_by_name st n = Some f \<and> (f_kind f = Singleton co \<or> f_kind f = Prototype)
                \<and> n \<in> set (factories st) \<and> req \<in> set (f_requirements f) \<longrightarrow>
                isl (fst (container_setup st)))))"
proof (rule conjI)
  show "find_by_name Container_init CONTAINER_COMPONENT_NAME
     = Some (StaticComponentFactory CONTAINER_COMPONENT_NAME Container_self)"
    by (simp add: Container_init_def register_instance_def register_factory_def
          find_by_name_def)
next
  show "find_by_name st CONTAINER_COMPONENT_NAME
         = Some (StaticComponentFactory CONTAINER_COMPONENT_NAME c) \<longrightarrow>
        (component_name req = Some CONTAINER_COMPONENT_NAME
           \<and> issubclass (cls_type (obj_type c)) (component_type req) \<longrightarrow>
           post_init_step st req = Inr (CONTAINER_COMPONENT_NAME, CONTAINER_COMPONENT_NAME))
      \<and> ((component_name req = None
             \<or> (component_name req = Some rn \<and> find_by_name st rn = None))
           \<and> map fst (find_by_type st (component_type req)) = [CONTAINER_COMPONENT_NAME] \<longrightarrow>
           post_init_step st req = Inr (CONTAINER_COMPONENT_NAME, CONTAINER_COMPONENT_NAME))
      \<and> get_component (Suc k) (KeyStr CONTAINER_COMPONENT_NAME) st = Some (Inr c, st)
      \<and> (find_by_name st n = Some f \<and> (f_kind f = Singleton None \<or> f_kind f = Prototype)
           \<and> f_initialized f \<and> f_init_factories f = Some fs
           \<and> set fs \<subseteq> {CONTAINER_COMPONENT_NAME}
           \<and> f_component_name f \<notin> set (detector_context st)
           \<and> \<not> cls_init_raises (f_component_type f) \<longrightarrow>
           map_option fst (get_component (Suc (Suc k)) (KeyStr n) st)
             = Some (Inr (PyObj (next_id st) (f_component_type f) (replicate (length fs) c))))
      \<and> (find_by_name st n = Some f \<and> (f_kind f = Singleton None \<or> f_kind f = Prototype)
           \<and> get_component k (KeyStr n) st = Some (Inr x, st') \<longrightarrow>
           (\<exists>fs. f_init_factories f = Some fs \<and> length (obj_args x) = length fs
                 \<and> (\<forall>i < length fs. fs ! i = CONTAINER_COMPONENT_NAME \<longrightarrow> obj_args x ! i = c)))
      \<and> (post_init_step st req = Inr (a, CONTAINER_COMPONENT_NAME) \<longrightarrow>
           (component_name req = Some CONTAINER_COMPONENT_NAME
              \<and> issubclass (cls_type (obj_type c)) (component_type req))
           \<or> ((component_name req = None
                 \<or> (\<exists>rn. component_name req = Some rn \<and> find_by_name st rn = None))
               \<and> map fst (find_by_type st (component_type req)) = [CONTAINER_COMPONENT_NAME]))
      \<and> (component_name req = Some rn \<and> find_by_name st rn = Some g
           \<and> \<not> is_type_of g (component_type req) \<longrightarrow>
           post_init_step st req = Inl TypeMismatchException
           \<and> (find_by_name st n = Some f \<and> (f_kind f = Singleton co \<or> f_kind f = Prototype)
                \<and> n \<in> set (factories st) \<and> req \<in> set (f_requirements f) \<longrightarrow>
                isl (fst (container_setup st))))"
  proof (rule impI)
    assume reg: "find_by_name st CONTAINER_COMPONENT_NAME
         = Some (StaticComponentFactory CONTAINER_COMPONENT_NAME c)"
    then have h: "has_container st c" by (rule static_has_container)
    have a: "component_name req = Some CONTAINER_COMPONENT_NAME
           \<and> issubclass (cls_type (obj_type c)) (component_type req) \<longrightarrow>
           post_init_step st req = Inr (CONTAINER_COMPONENT_NAME, CONTAINER_COMPONENT_NAME)"
      using reg by (simp add: post_init_step_def is_type_of_def StaticComponentFactory_def)
    have b: "(component_name req = None
             \<or> (component_name req = Some rn \<and> find_by_name st rn = None))
           \<and> map fst (find_by_type st (component_type req)) = [CONTAINER_COMPONENT_NAME] \<longrightarrow>
           post_init_step st req = Inr (CONTAINER_COMPONENT_NAME, CONTAINER_COMPONENT_NAME)"
      by (auto simp: post_init_step_def split: list.splits)
    have c: "get_component (Suc k) (KeyStr CONTAINER_COMPONENT_NAME) st = Some (Inr c, st)"
      using reg by (simp add: get_component_def StaticComponentFactory_def)
    have d: "find_by_name st n = Some f \<and> (f_kind f = Singleton None \<or> f_kind f = Prototype)
           \<and> f_initialized f \<and> f_init_factories f = Some fs
           \<and> set fs \<subseteq> {CONTAINER_COMPONENT_NAME}
           \<and> f_component_name f \<notin> set (detector_context st)
           \<and> \<not> cls_init_raises (f_component_type f) \<longrightarrow>
           map_option fst (get_component (Suc (Suc k)) (KeyStr n) st)
             = Some (Inr (PyObj (next_id st) (f_component_type f) (replicate (length fs) c)))"
    proof (rule impI)
      assume p: "find_by_name st n = Some f \<and> (f_kind f = Singleton None \<or> f_kind f = Prototype)
           \<and> f_initialized f \<and> f_init_factories f = Some fs
           \<and> set fs \<subseteq> {CONTAINER_COMPONENT_NAME}
           \<and> f_component_name f \<notin> set (detector_context st)
           \<and> \<not> cls_init_raises (f_component_type f)"
      then have "create_component (get_object (Suc k)) f st
           = Some (Inr (PyObj (next_id st) (f_component_type f) (replicate (length fs) c)),
                   st\<lparr>next_id := Suc (next_id st)\<rparr>)"
        using h by (intro create_component_only_container) auto
      then show "map_option fst (get_component (Suc (Suc k)) (KeyStr n) st)
             = Some (Inr (PyObj (next_id st) (f_component_type f) (replicate (length fs) c)))"
        using p by (auto simp: get_component_def)
    qed
    have e: "find_by_name st n = Some f \<and> (f_kind f = Singleton None \<or> f_kind f = Prototype)
           \<and> get_component k (KeyStr n) st = Some (Inr x, st') \<longrightarrow>
           (\<exists>fs. f_init_factories f = Some fs \<and> length (obj_args x) = length fs
                 \<and> (\<forall>i < length fs. fs ! i = CONTAINER_COMPONENT_NAME \<longrightarrow> obj_args x ! i = c))"
    proof (rule impI)
      assume p: "find_by_name st n = Some f \<and> (f_kind f = Singleton None \<or> f_kind f = Prototype)
           \<and> get_component k (KeyStr n) st = Some (Inr x, st')"
      then have g: "get_object k n st = Some (Inr x, st')" by (auto simp: get_component_def)
      then obtain j where k: "k = Suc j" by (cases k) auto
      from g p obtain s1 where cr: "create_component (get_object j) f st = Some (Inr x, s1)"
        unfolding k by (auto split: option.splits sum.splits prod.splits)
      from create_component_args [OF cr] obtain fs s2 where
        fs: "f_init_factories f = Some fs" and
        go: "get_objects (get_object j) fs
               (st\<lparr>detector_context := detector_context st @ [f_component_name f]\<rparr>)
             = Some (Inr (obj_args x), s2)"
        by blast
      have "has_container (st\<lparr>detector_context := detector_context st @ [f_component_name f]\<rparr>) c"
        using h by simp
      from get_objects_container [OF this go] fs
      show "\<exists>fs. f_init_factories f = Some fs \<and> length (obj_args x) = length fs
                 \<and> (\<forall>i < length fs. fs ! i = CONTAINER_COMPONENT_NAME \<longrightarrow> obj_args x ! i = c)"
        by simp
    qed
    have nec: "post_init_step st req = Inr (a, CONTAINER_COMPONENT_NAME) \<longrightarrow>
           (component_name req = Some CONTAINER_COMPONENT_NAME
              \<and> issubclass (cls_type (obj_type c)) (component_type req))
           \<or> ((component_name req = None
                 \<or> (\<exists>rn. component_name req = Some rn \<and> find_by_name st rn = None))
               \<and> map fst (find_by_type st (component_type req)) = [CONTAINER_COMPONENT_NAME])"
      using reg
      by (auto simp: post_init_step_def is_type_of_def StaticComponentFactory_def
               split: option.splits if_splits list.splits)
    have tm: "component_name req = Some rn \<and> find_by_name st rn = Some g
           \<and> \<not> is_type_of g (component_type req) \<longrightarrow>
           post_init_step st req = Inl TypeMismatchException
           \<and> (find_by_name st n = Some f \<and> (f_kind f = Singleton co \<or> f_kind f = Prototype)
                \<and> n \<in> set (factories st) \<and> req \<in> set (f_requirements f) \<longrightarrow>
                isl (fst (container_setup st)))"
    proof (intro impI conjI)
      assume p: "component_name req = Some rn \<and> find_by_name st rn = Some g
           \<and> \<not> is_type_of g (component_type req)"
      then show s: "post_init_step st req = Inl TypeMismatchException"
        by (simp add: post_init_step_def)
      assume q: "find_by_name st n = Some f \<and> (f_kind f = Singleton co \<or> f_kind f = Prototype)
                \<and> n \<in> set (factories st) \<and> req \<in> set (f_requirements f)"
      have "isl (fst (setup_loop (factories st) st))"
      proof (rule setup_loop_unresolved)
        show "f_kind f = Singleton co \<or> f_kind f = Prototype" using q by simp
        show "req \<in> set (f_requirements f)" using q by simp
        show "n \<in> set (factories st)" using q by simp
        show "find_by_name st n = Some f" using q by simp
        show "isl (post_init_step st req)" using s by simp
      qed
      then show "isl (fst (container_setup st))" by (simp add: container_setup_def)
    qed
    from a b c d e nec tm show "(component_name req = Some CONTAINER_COMPONENT_NAME
           \<and> issubclass (cls_type (obj_type c)) (component_type req) \<longrightarrow>
           post_init_step st req = Inr (CONTAINER_COMPONENT_NAME, CONTAINER_COMPONENT_NAME))
      \<and> ((component_name req = None
             \<or> (component_name req = Some rn \<and> find_by_name st rn = None))
           \<and> map fst (find_by_type st (component_type req)) = [CONTAINER_COMPONENT_NAME] \<longrightarrow>
           post_init_step st req = Inr (CONTAINER_COMPONENT_NAME, CONTAINER_COMPONENT_NAME))
      \<and> get_component (Suc k) (KeyStr CONTAINER_COMPONENT_NAME) st = Some (Inr c, st)
      \<and> (find_by_name st n = Some f \<and> (f_kind f = Singleton None \<or> f_kind f = Prototype)
           \<and> f_initialized f \<and> f_init_factories f = Some fs
           \<and> set fs \<subseteq> {CONTAINER_COMPONENT_NAME}
           \<and> f_component_name f \<notin> set (detector_context st)
           \<and> \<not> cls_init_raises (f_component_type f) \<longrightarrow>
           map_option fst (get_component (Suc (Suc k)) (KeyStr n) st)
             = Some (Inr (PyObj (next_id st) (f_component_type f) (replicate (length fs) c))))
      \<and> (find_by_name st n = Some f \<and> (f_kind f = Singleton None \<or> f_kind f = Prototype)
           \<and> get_component k (KeyStr n) st = Some (Inr x, st') \<longrightarrow>
           (\<exists>fs. f_init_factories f = Some fs \<and> length (obj_args x) = length fs
                 \<and> (\<forall>i < length fs. fs ! i = CONTAINER_COMPONENT_NAME \<longrightarrow> obj_args x ! i = c)))
      \<and> (post_init_step st req = Inr (a, CONTAINER_COMPONENT_NAME) \<longrightarrow>
           (component_name req = Some CONTAINER_COMPONENT_NAME
              \<and> issubclass (cls_type (obj_type c)) (component_type req))
           \<or> ((component_name req = None
                 \<or> (\<exists>rn. component_name req = Some rn \<and> find_by_name st rn = None))
               \<and> map fst (find_by_type st (component_type req)) = [CONTAINER_COMPONENT_NAME]))
      \<and> (component_name req = Some rn \<and> find_by_name st rn = Some g
           \<and> \<not> is_type_of g (component_type req) \<longrightarrow>
           post_init_step st req = Inl TypeMismatchException
           \<and> (find_by_name st n = Some f \<and> (f_kind f = Singleton co \<or> f_kind f = Prototype)
                \<and> n \<in> set (factories st) \<and> req \<in> set (f_requirements f) \<longrightarrow>
                isl (fst (container_setup st))))"
      by blast
  qed
qed

lemma example_inject_container:
  "find_by_name example_inject CONTAINER_COMPONENT_NAME
     = Some (StaticComponentFactory CONTAINER_COMPONENT_NAME Container_self)"
  by code_simp

lemma example_inject_factory:
  "find_by_name example_inject ''injectable_container''
     = Some ((SingletonComponentFactory ''injectable_container'' class_InjectableContainer
                [Dependency (Some ''container'') (PyType ''Container'' []) DependencyType_SIMPLE])
             \<lparr>f_initialized := True, f_init_dependencies := [''container''],
               f_init_factories := Some [''container'']\<rparr>)"
  by code_simp

lemma example_inject_context: "detector_context example_inject = []"
  by code_simp

lemma example_inject_next: "next_id example_inject = 1"
  by code_simp

lemma example_clash_container:
  "find_by_name example_clash CONTAINER_COMPONENT_NAME
     = Some (StaticComponentFactory CONTAINER_COMPONENT_NAME Container_self)"
  by code_simp

lemma example_clash_factory:
  "find_by_name example_clash ''needs_container''
     = Some (SingletonComponentFactory ''needs_container'' class_NeedsContainer
               [Dependency (Some ''c'') (PyType ''Container'' []) DependencyType_SIMPLE])"
  by code_simp

lemma example_clash_factories: "''needs_container'' \<in> set (factories example_clash)"
  by code_simp

theorem C8_container_injected_witness:
  "post_init_step example_inject
      (Dependency (Some ''container'') (PyType ''Container'' []) DependencyType_SIMPLE)
     = Inr (''container'', ''container'')
   \<and> get_component (Suc 0) (KeyStr ''container'') example_inject
       = Some (Inr Container_self, example_inject)
   \<and> map_option fst (get_component (Suc (Suc 0)) (KeyStr ''injectable_container'') example_inject)
       = Some (Inr (PyObj 1 class_InjectableContainer [Container_self]))
   \<and> isl (fst (container_setup example_clash))"
  using C8_container_injected
    [where st = example_inject and c = Container_self and k = 0
       and req = "Dependency (Some ''container'') (PyType ''Container'' []) DependencyType_SIMPLE"
       and n = "''injectable_container''" and fs = "[''container'']"
       and f = "(SingletonComponentFactory ''injectable_container'' class_InjectableContainer
                [Dependency (Some ''container'') (PyType ''Container'' []) DependencyType_SIMPLE])
             \<lparr>f_initialized := True, f_init_dependencies := [''container''],
               f_init_factories := Some [''container'']\<rparr>"]
    C8_container_injected
    [where st = example_clash and c = Container_self and rn = "''c''"
       and req = "Dependency (Some ''c'') (PyType ''Container'' []) DependencyType_SIMPLE"
       and g = "StaticComponentFactory ''c'' example_message"
       and n = "''needs_container''" and co = None
       and f = "SingletonComponentFactory ''needs_container'' class_NeedsContainer
               [Dependency (Some ''c'') (PyType ''Container'' []) DependencyType_SIMPLE]"]
    example_inject_container example_inject_factory example_inject_context example_inject_next
    example_clash_container example_clash_factory example_clash_factories
    example_clash_c example_clash_type
  by (simp add: Dependency_def CONTAINER_COMPONENT_NAME_def Container_self_def
        Container_class_def SingletonComponentFactory_def class_InjectableContainer_def)

theorem C8_requirement_on_container_fails_counterexample:
  "dependencies_of (cls_init class_NeedsContainer)
     = [Dependency (Some ''c'') (cls_type (obj_type Container_self)) DependencyType_SIMPLE]
   \<and> find_by_name example_clash CONTAINER_COMPONENT_NAME
       = Some (StaticComponentFactory CONTAINER_COMPONENT_NAME Container_self)
   \<and> fst (container_setup example_clash) = Inl TypeMismatchException
   \<and> get_component 3 (KeyStr ''needs_container'') (snd (container_setup example_clash))
       = Some (Inl InvalidStateException, snd (container_setup example_clash))"
  by code_simp

end
